theory Spec2Isabelle
  imports Main "HOL-Library.AList" "HOL-Library.Sublist"
begin

section \<open>Strings, numbers and JSON values\<close>

text \<open>
  A JavaScript string is modelled as a \<open>string\<close>: a list of 8-bit characters, each
  standing for the UTF-16 code unit of the same value. Code units above \<open>0xFF\<close> are
  outside the model.

  \<open>String.prototype.trim\<close> strips WhiteSpace and LineTerminator code points from both
  ends. Below \<open>0x100\<close> these are TAB, LF, VT, FF, CR, SP and NBSP.
\<close>

definition isWhiteSpace :: "char \<Rightarrow> bool" where
  "isWhiteSpace c \<longleftrightarrow>
     c \<in> set [CHR 0x09, CHR 0x0A, CHR 0x0B, CHR 0x0C, CHR 0x0D, CHR 0x20, CHR 0xA0]"

definition trim :: "string \<Rightarrow> string" where
  "trim s = rev (dropWhile isWhiteSpace (rev (dropWhile isWhiteSpace s)))"

text \<open>\<open>Array.prototype.join\<close> on a list of strings.\<close>

fun join :: "string \<Rightarrow> string list \<Rightarrow> string" where
  "join sep [] = []"
| "join sep [x] = x"
| "join sep (x # y # ys) = x @ sep @ join sep (y # ys)"

text \<open>Decimal digits of a natural number, most significant first.\<close>

definition digit_char :: "nat \<Rightarrow> char" where
  "digit_char d = ''0123456789'' ! d"

fun digits :: "nat \<Rightarrow> string" where
  "digits n = (if n < 10 then [digit_char n] else digits (n div 10) @ [digit_char (n mod 10)])"

declare digits.simps [simp del]

text \<open>
  \<open>Number.prototype.toString\<close> on an integer that a double holds exactly and prints in
  plain decimal digits: a safe integer, of magnitude at most \<open>2^53 - 1\<close>. It is applied
  to readings of \<open>Date.now()\<close> (of magnitude at most \<open>8.64 * 10^15\<close>) and to the safe
  integers below.
\<close>

definition show_int :: "int \<Rightarrow> string" where
  "show_int i = (if i < 0 then CHR ''-'' # digits (nat (- i)) else digits (nat i))"

text \<open>
  The safe integers, \<open>Number.isSafeInteger\<close>: the integers of magnitude at most
  \<open>2^53 - 1\<close>. A double holds each of them exactly, no two of them share a double, and
  \<open>Number.prototype.toString\<close> prints each in plain decimal digits.
\<close>

typedef safe_integer = "{i :: int. - 9007199254740991 \<le> i \<and> i \<le> 9007199254740991}"
  by (rule exI [of _ 0]) simp

text \<open>
  The values a parsed request body can hold (\<open>unknown\<close> in the TypeScript source).
  \<open>JNum n\<close> is the number whose value is the safe integer \<open>n\<close>; \<open>JNegZero\<close> is \<open>-0\<close>;
  \<open>JNonFinite\<close> stands for \<open>Infinity\<close>, \<open>-Infinity\<close> and \<open>NaN\<close>. The other numbers,
  those with a fractional part and the integers that are not safe, are not represented.
  An object is the list of its properties, each key once, in enumeration order.
\<close>

datatype json =
    JNull
  | JBool bool
  | JNum safe_integer
  | JNegZero
  | JNonFinite
  | JStr string
  | JArr "json list"
  | JObj "(string \<times> json) list"

text \<open>
  \<open>JSON.stringify\<close> (ECMAScript, \<open>QuoteJSONString\<close> and \<open>SerializeJSONProperty\<close>), with
  no indentation and no replacer, as \<open>computeDataHash\<close> calls it.
\<close>

definition hex_digit :: "nat \<Rightarrow> char" where
  "hex_digit d = ''0123456789abcdef'' ! d"

definition escape_char :: "char \<Rightarrow> string" where
  "escape_char c =
     (if c = CHR 0x08 then [CHR 0x5C, CHR ''b'']
      else if c = CHR 0x09 then [CHR 0x5C, CHR ''t'']
      else if c = CHR 0x0A then [CHR 0x5C, CHR ''n'']
      else if c = CHR 0x0C then [CHR 0x5C, CHR ''f'']
      else if c = CHR 0x0D then [CHR 0x5C, CHR ''r'']
      else if c = CHR 0x22 then [CHR 0x5C, CHR 0x22]
      else if c = CHR 0x5C then [CHR 0x5C, CHR 0x5C]
      else if (of_char c :: nat) < 32
        then [CHR 0x5C, CHR ''u'', CHR ''0'', CHR ''0'',
              hex_digit (of_char c div 16), hex_digit (of_char c mod 16)]
      else [c])"

definition quote :: "string \<Rightarrow> string" where
  "quote s = CHR 0x22 # concat (map escape_char s) @ [CHR 0x22]"

fun stringify :: "json \<Rightarrow> string" where
  "stringify JNull = ''null''"
| "stringify (JBool b) = (if b then ''true'' else ''false'')"
| "stringify (JNum n) = show_int (Rep_safe_integer n)"
| "stringify JNegZero = ''0''"
| "stringify JNonFinite = ''null''"
| "stringify (JStr s) = quote s"
| "stringify (JArr xs) = ''['' @ join '','' (map stringify xs) @ '']''"
| "stringify (JObj kvs) =
     ''{'' @ join '','' (map (\<lambda>(k, v). quote k @ '':'' @ stringify v) kvs) @ ''}''"

section \<open>containerSandboxManager.ts: data model\<close>

record SandboxConfig =
  image :: string
  username :: string
  password :: string
  database :: string
  ttlMs :: int
  readinessTimeoutMs :: int
  readinessRetryDelayMs :: int
  cleanupIntervalMs :: int

definition defaultConfig :: SandboxConfig where
  "defaultConfig =
     \<lparr>image = ''wodby/postgres:15'', username = ''sandbox'', password = ''sandbox'',
      database = ''sandbox'', ttlMs = 60 * 60 * 1000, readinessTimeoutMs = 60 * 1000,
      readinessRetryDelayMs = 2000, cleanupIntervalMs = 5 * 60 * 1000\<rparr>"

text \<open>
  Seed data, \<open>Record<string, Record<string, unknown>[]>\<close>: the tables in enumeration
  order, each with its rows; a row is the list of its properties in enumeration order.
\<close>

type_synonym seed_row = "(string \<times> json) list"
type_synonym seed_data = "(string \<times> seed_row list) list"

text \<open>
  Reading a property of a row, \<open>row[col]\<close>. The rows of a parsed request body are plain
  objects: a key that the row does not hold itself is looked up in \<open>Object.prototype\<close>,
  whose own property names are listed below, and only a key found in neither place
  yields \<open>undefined\<close>. What \<open>Object.prototype\<close> holds under a name (a function, or for
  \<open>__proto__\<close> an accessor) is identified by that name.
\<close>

datatype js_value =
    Undefined
  | Value json
  | Inherited string

definition objectPrototypeKeys :: "string list" where
  "objectPrototypeKeys =
     [''constructor'', ''__defineGetter__'', ''__defineSetter__'', ''hasOwnProperty'',
      ''__lookupGetter__'', ''__lookupSetter__'', ''isPrototypeOf'', ''propertyIsEnumerable'',
      ''toString'', ''valueOf'', ''__proto__'', ''toLocaleString'']"

definition getProperty :: "seed_row \<Rightarrow> string \<Rightarrow> js_value" where
  "getProperty row col =
     (case map_of row col of
        Some v \<Rightarrow> Value v
      | None \<Rightarrow> if col \<in> set objectPrototypeKeys then Inherited col else Undefined)"

text \<open>
  \<open>SandboxRequest\<close>. The fields carry the prefix \<open>r_\<close> because \<open>SandboxInstance\<close> below
  has fields of the same names; an optional field is an \<open>option\<close>.
\<close>

record SandboxRequest =
  r_sessionId :: "string option"
  r_dbml :: string
  r_data :: seed_data
  r_engine :: "string option"

record SandboxInstance =
  sessionId :: string
  dbml :: string
  dataHash :: string
  engine :: string
  containerId :: string
  hostPort :: nat
  createdAt :: int
  lastAccessed :: int

record QueryResult =
  rows :: "json list"
  columns :: "string list"

text \<open>
  What a failing call throws: a JavaScript \<open>Error\<close>, identified by its message, or a
  value that is not an \<open>Error\<close>.
\<close>

datatype js_error = Error string | NotAnError

type_synonym 'a result = "js_error + 'a"

section \<open>The world outside the manager\<close>

text \<open>
  The Docker daemon is its history: the operations that succeeded, in order. A container
  is live (listed by the daemon) from its creation to its removal; starting and
  stopping do not change that. A container is attributed to a session by its name.
\<close>

datatype docker_event =
    Created string string  \<comment> \<open>container id, container name\<close>
  | Started string
  | Stopped string
  | Removed string

fun docker_apply :: "(string \<times> string) list \<Rightarrow> docker_event \<Rightarrow> (string \<times> string) list" where
  "docker_apply cs (Created cid name) = cs @ [(cid, name)]"
| "docker_apply cs (Started cid) = cs"
| "docker_apply cs (Stopped cid) = cs"
| "docker_apply cs (Removed cid) = filter (\<lambda>(c, n). c \<noteq> cid) cs"

definition live_containers :: "docker_event list \<Rightarrow> (string \<times> string) list" where
  "live_containers evs = foldl docker_apply [] evs"

definition containerName :: "string \<Rightarrow> string" where
  "containerName sid = ''sql-sandbox-'' @ sid"

definition attributed :: "string \<Rightarrow> docker_event list \<Rightarrow> string list" where
  "attributed sid evs =
     map fst (filter (\<lambda>(c, n). n = containerName sid) (live_containers evs))"

text \<open>A statement sent over a \<open>pg\<close> client: \<open>client.query(text)\<close> or \<open>client.query(text, values)\<close>.\<close>

datatype pg_statement =
    Simple string
  | Parameterised string "js_value list"

text \<open>
  What the outside world answers during one operation. Every call that can fail has its
  outcome here: \<open>Inl\<close> is the error it throws, \<open>Inr\<close> the value it returns.
  The polling loop of \<open>waitForPostgresReady\<close> reads the clock and the network at every
  turn; its outcome is taken whole, \<open>Inr ()\<close> when an attempt connected in time and
  \<open>Inl\<close> the error thrown at the timeout. The regular-expression parser of
  \<open>dbmlParser.ts\<close> is a pure function that throws on no string; the statements it
  yields for a schema description are the field \<open>schema_of\<close>.
\<close>

record removal_env =
  stop_result :: "unit result"  \<comment> \<open>\<open>container.stop({ t: 5 })\<close>\<close>
  remove_result :: "unit result"  \<comment> \<open>\<open>container.remove({ force: true })\<close>\<close>

record provision_env =
  listImages_result :: "nat result"  \<comment> \<open>how many local images match\<close>
  pull_result :: "unit result"
  allocatePort_result :: "nat result"
  createContainer_result :: "string result"  \<comment> \<open>the id of the new container\<close>
  start_result :: "unit result"
  ready_result :: "unit result"  \<comment> \<open>how \<open>waitForPostgresReady\<close> ends\<close>
  schema_of :: "string \<Rightarrow> string list"  \<comment> \<open>\<open>generateSQLSchema(parseDBML(dbml))\<close>\<close>
  connect_result :: "unit result"
  statement_result :: "nat \<Rightarrow> unit result"  \<comment> \<open>the outcome of the i-th statement sent\<close>
  end_result :: "unit result"
  rollback :: removal_env  \<comment> \<open>the daemon's answers to \<open>safeRemoveContainer\<close>\<close>
  createdAt_now :: int  \<comment> \<open>\<open>Date.now()\<close> for \<open>createdAt\<close>\<close>
  lastAccessed_now :: int  \<comment> \<open>\<open>Date.now()\<close> for \<open>lastAccessed\<close>\<close>

record env =
  id_now :: int  \<comment> \<open>\<open>Date.now()\<close> in \<open>generateSessionId\<close>\<close>
  id_random :: string  \<comment> \<open>\<open>Math.random().toString(36).slice(2, 10)\<close>\<close>
  touch_now :: int  \<comment> \<open>\<open>Date.now()\<close> on reuse\<close>
  removal :: removal_env  \<comment> \<open>the daemon's answers to \<open>removeContainer\<close> in a rebuild\<close>
  provision :: provision_env

record raw_result =
  result_rows :: "json list"
  result_fields :: "string list option"

record query_env =
  q_now :: int
  q_connect :: "unit result"
  q_query :: "raw_result result"
  q_end :: "unit result"

record gc_env =
  gc_now :: int
  gc_removal :: "string \<Rightarrow> removal_env"  \<comment> \<open>per session id deleted in the cycle\<close>

text \<open>
  The manager (\<open>this.sandboxes\<close>, a \<open>Map\<close> in insertion order, and \<open>this.config\<close>)
  together with the history of the Docker daemon and the statements sent to the
  PostgreSQL servers, each with the port it was sent to. \<open>this.ensureImagePromise\<close> is
  \<open>null\<close> whenever no call is in progress and is left out.
\<close>

record state =
  sandboxes :: "(string \<times> SandboxInstance) list"
  config :: SandboxConfig
  docker :: "docker_event list"
  postgres :: "(nat \<times> pg_statement) list"

definition initial :: "SandboxConfig \<Rightarrow> state" where
  "initial c = \<lparr>sandboxes = [], config = c, docker = [], postgres = []\<rparr>"

section \<open>containerSandboxManager.ts: operations\<close>

text \<open>The seed data as the JavaScript value it is: an object of arrays of objects.\<close>

definition seed_json :: "seed_data \<Rightarrow> json" where
  "seed_json data = JObj (map (\<lambda>(t, rs). (t, JArr (map JObj rs))) data)"

definition computeDataHash :: "string \<Rightarrow> seed_data \<Rightarrow> string" where
  "computeDataHash dbml_text data =
     stringify (JObj [(''dbml'', JStr dbml_text), (''data'', seed_json data)])"

definition generateSessionId :: "int \<Rightarrow> string \<Rightarrow> string" where
  "generateSessionId now rnd = ''sandbox_'' @ show_int now @ ''_'' @ rnd"

definition removeContainer :: "string \<Rightarrow> removal_env \<Rightarrow> docker_event list \<Rightarrow> docker_event list" where
  "removeContainer cid r d =
     (let d1 = (case stop_result r of Inl e \<Rightarrow> d | Inr u \<Rightarrow> d @ [Stopped cid])
      in case remove_result r of Inl e \<Rightarrow> d1 | Inr u \<Rightarrow> d1 @ [Removed cid])"

definition safeRemoveContainer :: "string \<Rightarrow> removal_env \<Rightarrow> docker_event list \<Rightarrow> docker_event list" where
  "safeRemoveContainer container r d =
     (let d1 = (case stop_result r of Inl e \<Rightarrow> d | Inr u \<Rightarrow> d @ [Stopped container])
      in case remove_result r of Inl e \<Rightarrow> d1 | Inr u \<Rightarrow> d1 @ [Removed container])"

definition deleteSandbox :: "string \<Rightarrow> removal_env \<Rightarrow> state \<Rightarrow> state" where
  "deleteSandbox sid r s =
     (case map_of (sandboxes s) sid of
        None \<Rightarrow> s
      | Some sandbox \<Rightarrow>
          s\<lparr>docker := removeContainer (containerId sandbox) r (docker s),
            sandboxes := AList.delete sid (sandboxes s)\<rparr>)"

definition ensureImage :: "string \<Rightarrow> provision_env \<Rightarrow> unit result" where
  "ensureImage eng p =
     (if eng \<noteq> ''postgres'' then Inr ()
      else case listImages_result p of
             Inl e \<Rightarrow> Inl e
           | Inr n \<Rightarrow> if n = 0 then pull_result p else Inr ())"

definition launchPostgresContainer ::
  "string \<Rightarrow> nat \<Rightarrow> provision_env \<Rightarrow> docker_event list \<Rightarrow> string result \<times> docker_event list" where
  "launchPostgresContainer sid port p d =
     (case createContainer_result p of
        Inl e \<Rightarrow> (Inl e, d)
      | Inr container \<Rightarrow>
          (let d1 = d @ [Created container (containerName sid)]
           in case start_result p of
                Inl e \<Rightarrow> (Inl e, d1)
              | Inr u \<Rightarrow> (Inr container, d1 @ [Started container])))"

text \<open>\<open>seedPostgresDatabase\<close>: the statements for one table, then for the whole seed.\<close>

definition insertSQL :: "string \<Rightarrow> string list \<Rightarrow> string" where
  "insertSQL tableName cols =
     ''INSERT INTO '' @ [CHR 0x22] @ tableName @ [CHR 0x22] @ '' ('' @
       join '', '' (map (\<lambda>col. [CHR 0x22] @ col @ [CHR 0x22]) cols) @
     '') VALUES ('' @
       join '', '' (map (\<lambda>idx. CHR ''$'' # digits (idx + 1)) [0..<length cols]) @ '')''"

definition insertStatements :: "string \<Rightarrow> seed_row list \<Rightarrow> pg_statement list" where
  "insertStatements tableName rs =
     (case rs of
        [] \<Rightarrow> []
      | first # rest \<Rightarrow>
          (let cols = map fst first
           in if cols = [] then []
              else map (\<lambda>row. Parameterised (insertSQL tableName cols)
                                (map (\<lambda>col. getProperty row col) cols)) rs))"

definition seedStatements :: "string list \<Rightarrow> seed_data \<Rightarrow> pg_statement list" where
  "seedStatements schemaStatements data =
     map Simple schemaStatements @ concat (map (\<lambda>(t, rs). insertStatements t rs) data)"

text \<open>Statements are sent one by one; the first failure stops the loop.\<close>

fun send_all ::
  "nat \<Rightarrow> (nat \<Rightarrow> unit result) \<Rightarrow> nat \<Rightarrow> pg_statement list \<Rightarrow> (nat \<times> pg_statement) list
     \<Rightarrow> unit result \<times> (nat \<times> pg_statement) list" where
  "send_all port out i [] lg = (Inr (), lg)"
| "send_all port out i (st # sts) lg =
     (case out i of
        Inl e \<Rightarrow> (Inl e, lg @ [(port, st)])
      | Inr u \<Rightarrow> send_all port out (Suc i) sts (lg @ [(port, st)]))"

definition seedPostgresDatabase ::
  "nat \<Rightarrow> string \<Rightarrow> seed_data \<Rightarrow> provision_env \<Rightarrow> (nat \<times> pg_statement) list
     \<Rightarrow> unit result \<times> (nat \<times> pg_statement) list" where
  "seedPostgresDatabase port dbml_text data p lg =
     (case connect_result p of
        Inl e \<Rightarrow> (Inl e, lg)
      | Inr u \<Rightarrow>
          (case send_all port (statement_result p) 0
                  (seedStatements (schema_of p dbml_text) data) lg of
             (r, lg') \<Rightarrow>
               (case end_result p of Inl e \<Rightarrow> (Inl e, lg') | Inr u \<Rightarrow> (r, lg'))))"

definition createSandbox ::
  "string \<Rightarrow> string \<Rightarrow> seed_data \<Rightarrow> string \<Rightarrow> string \<Rightarrow> provision_env \<Rightarrow> state
     \<Rightarrow> SandboxInstance result \<times> state" where
  "createSandbox sid dbml_text data eng hash p s =
     (if eng \<noteq> ''postgres''
      then (Inl (Error (''Engine '' @ eng @ '' is not supported yet'')), s)
      else case ensureImage eng p of
        Inl e \<Rightarrow> (Inl e, s)
      | Inr u \<Rightarrow>
       (case allocatePort_result p of
          Inl e \<Rightarrow> (Inl e, s)
        | Inr port \<Rightarrow>
         (case launchPostgresContainer sid port p (docker s) of
            (Inl e, d) \<Rightarrow> (Inl e, s\<lparr>docker := d\<rparr>)
          | (Inr container, d) \<Rightarrow>
           (case ready_result p of
              Inl e \<Rightarrow> (Inl e, s\<lparr>docker := safeRemoveContainer container (rollback p) d\<rparr>)
            | Inr u \<Rightarrow>
             (case seedPostgresDatabase port dbml_text data p (postgres s) of
                (Inl e, lg) \<Rightarrow>
                  (Inl e, s\<lparr>docker := safeRemoveContainer container (rollback p) d,
                             postgres := lg\<rparr>)
              | (Inr u, lg) \<Rightarrow>
                  (let sandbox = \<lparr>sessionId = sid, dbml = dbml_text, dataHash = hash,
                                  engine = eng, containerId = container, hostPort = port,
                                  createdAt = createdAt_now p,
                                  lastAccessed = lastAccessed_now p\<rparr>
                   in (Inr sandbox,
                       s\<lparr>docker := d, postgres := lg,
                         sandboxes := AList.update sid sandbox (sandboxes s)\<rparr>)))))))"

definition replaceSandbox ::
  "string \<Rightarrow> string \<Rightarrow> seed_data \<Rightarrow> string \<Rightarrow> string \<Rightarrow> env \<Rightarrow> state
     \<Rightarrow> SandboxInstance result \<times> state" where
  "replaceSandbox sid dbml_text data eng hash e s =
     createSandbox sid dbml_text data eng hash (provision e) (deleteSandbox sid (removal e) s)"

text \<open>\<open>request.engine ?? 'postgres'\<close>\<close>

definition requestEngine :: "SandboxRequest \<Rightarrow> string" where
  "requestEngine request = (case r_engine request of None \<Rightarrow> ''postgres'' | Some x \<Rightarrow> x)"

definition getOrCreateSandbox :: "SandboxRequest \<Rightarrow> env \<Rightarrow> state \<Rightarrow> SandboxInstance result \<times> state" where
  "getOrCreateSandbox request e s =
     (let eng = requestEngine request;
          normalizedSessionId =
            (case r_sessionId request of
               None \<Rightarrow> generateSessionId (id_now e) (id_random e)
             | Some k \<Rightarrow>
                 if k \<noteq> [] \<and> map_of (sandboxes s) k \<noteq> None then k
                 else generateSessionId (id_now e) (id_random e));
          hash = computeDataHash (r_dbml request) (r_data request)
      in case map_of (sandboxes s) normalizedSessionId of
           Some existing \<Rightarrow>
             if dbml existing \<noteq> r_dbml request \<or> dataHash existing \<noteq> hash
             then replaceSandbox (sessionId existing) (r_dbml request) (r_data request) eng hash e s
             else (let touched = existing\<lparr>lastAccessed := touch_now e\<rparr>
                   in (Inr touched,
                       s\<lparr>sandboxes := AList.update normalizedSessionId touched (sandboxes s)\<rparr>))
         | None \<Rightarrow>
             createSandbox normalizedSessionId (r_dbml request) (r_data request) eng hash
               (provision e) s)"

definition executePostgresQuery ::
  "nat \<Rightarrow> string \<Rightarrow> query_env \<Rightarrow> (nat \<times> pg_statement) list
     \<Rightarrow> QueryResult result \<times> (nat \<times> pg_statement) list" where
  "executePostgresQuery port query q lg =
     (case q_connect q of
        Inl e \<Rightarrow> (Inl e, lg)
      | Inr u \<Rightarrow>
          (let lg' = lg @ [(port, Simple query)];
               r = (case q_query q of
                      Inl e \<Rightarrow> Inl e
                    | Inr res \<Rightarrow>
                        Inr \<lparr>rows = result_rows res,
                             columns = (case result_fields res of None \<Rightarrow> [] | Some fs \<Rightarrow> fs)\<rparr>)
           in case q_end q of Inl e \<Rightarrow> (Inl e, lg') | Inr u \<Rightarrow> (r, lg')))"

definition sessionNotFound :: js_error where
  "sessionNotFound = Error ''Sandbox session not found or expired''"

definition executeQuery :: "string \<Rightarrow> string \<Rightarrow> query_env \<Rightarrow> state \<Rightarrow> QueryResult result \<times> state" where
  "executeQuery sid query q s =
     (case map_of (sandboxes s) sid of
        None \<Rightarrow> (Inl sessionNotFound, s)
      | Some sandbox \<Rightarrow>
          (let s1 = s\<lparr>sandboxes :=
                       AList.update sid (sandbox\<lparr>lastAccessed := q_now q\<rparr>) (sandboxes s)\<rparr>
           in if engine sandbox = ''postgres''
              then (case executePostgresQuery (hostPort sandbox) query q (postgres s1) of
                      (r, lg) \<Rightarrow> (r, s1\<lparr>postgres := lg\<rparr>))
              else (Inl (Error (''Unsupported engine: '' @ engine sandbox)), s1)))"

text \<open>The test of \<open>cleanupExpiredSandboxes\<close>: \<open>now - sandbox.lastAccessed > this.config.ttlMs\<close>.\<close>

definition isExpired :: "int \<Rightarrow> int \<Rightarrow> SandboxInstance \<Rightarrow> bool" where
  "isExpired now ttl sb \<longleftrightarrow> now - lastAccessed sb > ttl"

definition expiredKeys :: "int \<Rightarrow> int \<Rightarrow> (string \<times> SandboxInstance) list \<Rightarrow> string list" where
  "expiredKeys now ttl m = map fst (filter (\<lambda>(k, sb). isExpired now ttl sb) m)"

definition cleanupExpiredSandboxes :: "gc_env \<Rightarrow> state \<Rightarrow> state" where
  "cleanupExpiredSandboxes g s =
     foldl (\<lambda>st k. deleteSandbox k (gc_removal g k) st) s
       (expiredKeys (gc_now g) (ttlMs (config s)) (sandboxes s))"

definition getActiveSandboxesCount :: "state \<Rightarrow> nat" where
  "getActiveSandboxesCount s = length (sandboxes s)"

section \<open>sessionManager.ts: the insert loop of \<open>SessionManager.createSession\<close>\<close>







section \<open>sqlExecutor.ts: \<open>SQLExecutor.validateQuery\<close> (container sandbox variant)\<close>

record validation =
  valid :: bool
  error :: "string option"

definition validateQuery :: "string \<Rightarrow> validation" where
  "validateQuery query =
     (if query = [] \<or> length (trim query) = 0
      then \<lparr>valid = False, error = Some ''Query cannot be empty''\<rparr>
      else \<lparr>valid = True, error = None\<rparr>)"

section \<open>sqlExecutor.ts: \<open>SQLExecutor.execute\<close> and the route \<open>POST /execute-query\<close>\<close>

record ExecuteQueryRequest =
  x_sessionId :: "string option"
  x_dbml :: string
  x_data :: seed_data
  x_query :: string
  x_engine :: "string option"

text \<open>\<open>ExecuteQueryResponse\<close>; a field that the response leaves out is \<open>None\<close>.\<close>

record ExecuteQueryResponse =
  success :: bool
  resp_rows :: "json list option"
  resp_columns :: "string list option"
  executionTime :: "int option"
  resp_error :: "string option"
  resp_sessionId :: "string option"
  resp_engine :: "string option"

record execute_env =
  start_now :: int  \<comment> \<open>\<open>Date.now()\<close> on entry\<close>
  sandbox_env :: env
  statement_env :: query_env
  end_now :: int  \<comment> \<open>\<open>Date.now()\<close> when the response is built\<close>

text \<open>The response of the \<open>catch\<close> block of \<open>execute\<close>.\<close>

definition failure :: "js_error \<Rightarrow> int \<Rightarrow> ExecuteQueryResponse" where
  "failure err elapsed =
     \<lparr>success = False, resp_rows = None, resp_columns = None, executionTime = Some elapsed,
      resp_error = Some (case err of Error message \<Rightarrow> message
                                   | NotAnError \<Rightarrow> ''Unknown error occurred''),
      resp_sessionId = None, resp_engine = None\<rparr>"

definition execute :: "ExecuteQueryRequest \<Rightarrow> execute_env \<Rightarrow> state \<Rightarrow> ExecuteQueryResponse \<times> state" where
  "execute request x s =
     (case getOrCreateSandbox
             \<lparr>r_sessionId = x_sessionId request, r_dbml = x_dbml request,
              r_data = x_data request, r_engine = x_engine request\<rparr> (sandbox_env x) s of
        (Inl err, s1) \<Rightarrow> (failure err (end_now x - start_now x), s1)
      | (Inr sandbox, s1) \<Rightarrow>
          (case executeQuery (sessionId sandbox) (x_query request) (statement_env x) s1 of
             (Inl err, s2) \<Rightarrow> (failure err (end_now x - start_now x), s2)
           | (Inr res, s2) \<Rightarrow>
               (\<lparr>success = True, resp_rows = Some (rows res), resp_columns = Some (columns res),
                 executionTime = Some (end_now x - start_now x), resp_error = None,
                 resp_sessionId = Some (sessionId sandbox),
                 resp_engine = Some (engine sandbox)\<rparr>, s2)))"

text \<open>The parsed request body: a field that the body leaves out is \<open>None\<close>.\<close>

record request_body =
  b_sessionId :: "string option"
  b_dbml :: "string option"
  b_data :: "seed_data option"
  b_query :: "string option"
  b_engine :: "string option"

definition rejected :: "string \<Rightarrow> ExecuteQueryResponse" where
  "rejected message =
     \<lparr>success = False, resp_rows = None, resp_columns = None, executionTime = None,
      resp_error = Some message, resp_sessionId = None, resp_engine = None\<rparr>"

text \<open>The handler's answer is the HTTP status and the JSON body.\<close>

definition postExecuteQuery ::
  "request_body \<Rightarrow> execute_env \<Rightarrow> state \<Rightarrow> (nat \<times> ExecuteQueryResponse) \<times> state" where
  "postExecuteQuery body x s =
     (case (b_dbml body, b_query body) of
        (Some dbml_text, Some query) \<Rightarrow>
          if dbml_text = [] \<or> query = []
          then ((400, rejected ''Missing required fields: dbml and query are required''), s)
          else (case b_data body of
                  None \<Rightarrow> ((400, rejected ''Data must be an object with table names as keys''), s)
                | Some data \<Rightarrow>
                    (let validation = validateQuery query
                     in if \<not> valid validation
                        then ((400, \<lparr>success = False, resp_rows = None, resp_columns = None,
                                     executionTime = None, resp_error = error validation,
                                     resp_sessionId = None, resp_engine = None\<rparr>), s)
                        else (case execute \<lparr>x_sessionId = b_sessionId body, x_dbml = dbml_text,
                                            x_data = data, x_query = query,
                                            x_engine = b_engine body\<rparr> x s of
                                (response, s1) \<Rightarrow>
                                  ((if success response then 200 else 400, response), s1))))
      | _ \<Rightarrow> ((400, rejected ''Missing required fields: dbml and query are required''), s))"

section \<open>Notions used in the statements\<close>

text \<open>A sequence of \<open>getOrCreateSandbox\<close> calls with one request, one environment per call.\<close>

fun getOrCreateSandbox_calls ::
  "SandboxRequest \<Rightarrow> env list \<Rightarrow> state \<Rightarrow> SandboxInstance result list \<times> state" where
  "getOrCreateSandbox_calls request [] s = ([], s)"
| "getOrCreateSandbox_calls request (e # es) s =
     (case getOrCreateSandbox request e s of
        (r, s1) \<Rightarrow>
          (case getOrCreateSandbox_calls request es s1 of (rs, s2) \<Rightarrow> (r # rs, s2)))"

text \<open>
  What a JavaScript \<open>Map\<close> filled by \<open>createSandbox\<close> guarantees: one record per key,
  each under its own \<open>sessionId\<close>.
\<close>

definition registry_ok :: "state \<Rightarrow> bool" where
  "registry_ok s \<longleftrightarrow>
     distinct (map fst (sandboxes s)) \<and> list_all (\<lambda>(k, sb). sessionId sb = k) (sandboxes s)"

text \<open>
  The answers under which a provisioning goes through: the image is there or is pulled,
  a port is allocated, the daemon creates and starts the container, the server becomes
  ready, and the connection, each of the \<open>n\<close> statements sent and the closing of the
  connection succeed.
\<close>

definition all_calls_return :: "provision_env \<Rightarrow> string \<Rightarrow> nat \<Rightarrow> nat \<Rightarrow> bool" where
  "all_calls_return p cid port n \<longleftrightarrow>
     (case listImages_result p of
        Inl e \<Rightarrow> False
      | Inr images \<Rightarrow> images = 0 \<longrightarrow> pull_result p = Inr ()) \<and>
     allocatePort_result p = Inr port \<and> createContainer_result p = Inr cid \<and>
     start_result p = Inr () \<and> ready_result p = Inr () \<and> connect_result p = Inr () \<and>
     list_all (\<lambda>i. statement_result p i = Inr ()) [0..<n] \<and> end_result p = Inr ()"


text \<open>The number of containers a stretch of the daemon's history creates.\<close>

fun creations :: "docker_event list \<Rightarrow> nat" where
  "creations [] = 0"
| "creations (Created cid name # evs) = Suc (creations evs)"
| "creations (ev # evs) = creations evs"



section \<open>Example inputs\<close>

text \<open>Concrete environments, requests and states on which the theorems below are instantiated.\<close>

definition ok_removal :: removal_env where
  "ok_removal = \<lparr>stop_result = Inr (), remove_result = Inr ()\<rparr>"

definition failing_removal :: removal_env where
  "failing_removal = \<lparr>stop_result = Inr (), remove_result = Inl (Error ''removal failed'')\<rparr>"

definition ok_provision :: "string \<Rightarrow> nat \<Rightarrow> int \<Rightarrow> provision_env" where
  "ok_provision cid port now =
     \<lparr>listImages_result = Inr 1, pull_result = Inr (), allocatePort_result = Inr port,
      createContainer_result = Inr cid, start_result = Inr (), ready_result = Inr (),
      schema_of = (\<lambda>d. [''CREATE TABLE IF NOT EXISTS users (id INTEGER, name TEXT);'']),
      connect_result = Inr (), statement_result = (\<lambda>i. Inr ()), end_result = Inr (),
      rollback = ok_removal, createdAt_now = now, lastAccessed_now = now\<rparr>"

definition ok_env :: "string \<Rightarrow> string \<Rightarrow> nat \<Rightarrow> int \<Rightarrow> env" where
  "ok_env rnd cid port now =
     \<lparr>id_now = now, id_random = rnd, touch_now = now, removal = ok_removal,
      provision = ok_provision cid port now\<rparr>"

definition ok_query :: "int \<Rightarrow> query_env" where
  "ok_query now =
     \<lparr>q_now = now, q_connect = Inr (),
      q_query = Inr \<lparr>result_rows = [], result_fields = Some [''id'', ''name'']\<rparr>,
      q_end = Inr ()\<rparr>"

definition ok_gc :: "int \<Rightarrow> gc_env" where
  "ok_gc now = \<lparr>gc_now = now, gc_removal = (\<lambda>k. ok_removal)\<rparr>"

definition example_request :: SandboxRequest where
  "example_request =
     \<lparr>r_sessionId = None, r_dbml = ''Table users { id integer name text }'',
      r_data = [(''users'', [[(''id'', JNum (Abs_safe_integer 1)), (''name'', JStr ''a'')]])],
      r_engine = None\<rparr>"

definition example_sandbox :: "string \<Rightarrow> string \<Rightarrow> nat \<Rightarrow> int \<Rightarrow> SandboxInstance" where
  "example_sandbox k cid port t =
     \<lparr>sessionId = k, dbml = r_dbml example_request,
      dataHash = computeDataHash (r_dbml example_request) (r_data example_request),
      engine = ''postgres'', containerId = cid, hostPort = port, createdAt = t,
      lastAccessed = t\<rparr>"

definition one_sandbox :: state where
  "one_sandbox =
     \<lparr>sandboxes = [(''sandbox_1000_aaaaaaaa'', example_sandbox ''sandbox_1000_aaaaaaaa'' ''c1'' 49153 1000)],
      config = defaultConfig,
      docker = [Created ''c1'' (containerName ''sandbox_1000_aaaaaaaa''), Started ''c1''],
      postgres = map (Pair 49153) (seedStatements
         [''CREATE TABLE IF NOT EXISTS users (id INTEGER, name TEXT);''] (r_data example_request))\<rparr>"

definition two_sandboxes :: state where
  "two_sandboxes =
     \<lparr>sandboxes = [(''sandbox_1000_aaaaaaaa'', example_sandbox ''sandbox_1000_aaaaaaaa'' ''c1'' 49153 1000),
                   (''sandbox_5000000_bbbbbbbb'', example_sandbox ''sandbox_5000000_bbbbbbbb'' ''c2'' 49154 5000000)],
      config = defaultConfig,
      docker = [Created ''c1'' (containerName ''sandbox_1000_aaaaaaaa''), Started ''c1'',
                Created ''c2'' (containerName ''sandbox_5000000_bbbbbbbb''), Started ''c2''],
      postgres = []\<rparr>"

definition changed_request :: SandboxRequest where
  "changed_request =
     \<lparr>r_sessionId = Some ''sandbox_1000_aaaaaaaa'',
      r_dbml = ''Table users { id integer name text email text }'',
      r_data = [(''users'', [[(''id'', JNum (Abs_safe_integer 1)), (''name'', JStr ''a'')]])],
      r_engine = None\<rparr>"

definition rebuilt_sandbox :: SandboxInstance where
  "rebuilt_sandbox =
     \<lparr>sessionId = ''sandbox_1000_aaaaaaaa'', dbml = r_dbml changed_request,
      dataHash = computeDataHash (r_dbml changed_request) (r_data changed_request),
      engine = ''postgres'', containerId = ''c3'', hostPort = 49155, createdAt = 7000000,
      lastAccessed = 7000000\<rparr>"

definition rebuilt_state :: state where
  "rebuilt_state =
     \<lparr>sandboxes = [(''sandbox_1000_aaaaaaaa'', rebuilt_sandbox)],
      config = defaultConfig,
      docker = docker one_sandbox @
        [Stopped ''c1'', Removed ''c1'',
         Created ''c3'' (containerName ''sandbox_1000_aaaaaaaa''), Started ''c3''],
      postgres = postgres one_sandbox @ map (Pair 49155) (seedStatements
         [''CREATE TABLE IF NOT EXISTS users (id INTEGER, name TEXT);''] (r_data changed_request))\<rparr>"

definition unready_provision :: provision_env where
  "unready_provision =
     (ok_provision ''c1'' 49153 1000)
       \<lparr>ready_result := Inl (Error ''Postgres sandbox failed to become ready within 60000ms''),
        rollback := failing_removal\<rparr>"

definition conflict_env :: env where
  "conflict_env =
     \<lparr>id_now = 7000000, id_random = ''cccccccc'', touch_now = 7000000,
      removal = failing_removal,
      provision = (ok_provision ''c3'' 49155 7000000)
        \<lparr>createContainer_result := Inl (Error ''Conflict. The container name is already in use'')\<rparr>\<rparr>"

definition own_key_request :: SandboxRequest where
  "own_key_request = example_request\<lparr>r_sessionId := Some ''my-session''\<rparr>"






definition drop_table_body :: request_body where
  "drop_table_body =
     \<lparr>b_sessionId = Some ''sandbox_1000_aaaaaaaa'', b_dbml = Some (r_dbml example_request),
      b_data = Some (r_data example_request), b_query = Some ''DROP TABLE users'',
      b_engine = None\<rparr>"

definition ok_execute :: execute_env where
  "ok_execute =
     \<lparr>start_now = 2000, sandbox_env = ok_env ''dddddddd'' ''c9'' 49160 2000,
      statement_env = ok_query 2001, end_now = 2005\<rparr>"

section \<open>Properties\<close>

subsection \<open>Trimming\<close>

lemma trim_empty_iff: "trim s = [] \<longleftrightarrow> (\<forall>c\<in>set s. isWhiteSpace c)"
proof
  assume e: "trim s = []"
  show "\<forall>c\<in>set s. isWhiteSpace c"
  proof (cases "dropWhile isWhiteSpace s")
    case Nil
    then show ?thesis by simp
  next
    case (Cons x xs)
    from e have "\<forall>c\<in>set (dropWhile isWhiteSpace s). isWhiteSpace c"
      by (simp add: trim_def)
    moreover have "\<not> isWhiteSpace (hd (dropWhile isWhiteSpace s))"
      by (rule hd_dropWhile) (simp add: Cons)
    ultimately show ?thesis by (simp add: Cons)
  qed
next
  assume "\<forall>c\<in>set s. isWhiteSpace c"
  then have d: "dropWhile isWhiteSpace s = []" by simp
  show "trim s = []" unfolding trim_def d by simp
qed

subsection \<open>The example states are states the manager reaches\<close>

lemmas run_defs = getOrCreateSandbox_def requestEngine_def createSandbox_def ensureImage_def launchPostgresContainer_def
     seedPostgresDatabase_def replaceSandbox_def
     deleteSandbox_def removeContainer_def safeRemoveContainer_def Let_def

lemmas example_defs = example_request_def ok_env_def ok_query_def ok_gc_def
     ok_provision_def ok_removal_def failing_removal_def initial_def example_sandbox_def

lemma generateSessionId_example: "generateSessionId 1000 ''aaaaaaaa'' = ''sandbox_1000_aaaaaaaa''"
  by (simp add: generateSessionId_def show_int_def digits.simps digit_char_def)

lemma send_all_ok:
  "(\<And>i. out i = Inr ()) \<Longrightarrow> send_all port out i sts lg = (Inr (), lg @ map (Pair port) sts)"
  by (induction sts arbitrary: i lg) auto

lemma one_sandbox_reachable:
  "snd (getOrCreateSandbox example_request (ok_env ''aaaaaaaa'' ''c1'' 49153 1000)
            (initial defaultConfig)) = one_sandbox"
  by (simp add: run_defs example_defs generateSessionId_example one_sandbox_def send_all_ok)

subsection \<open>Unknown session keys (C5)\<close>

lemma sandboxes_deleteSandbox: "sandboxes (deleteSandbox k r s) = AList.delete k (sandboxes s)"
  by (auto simp: deleteSandbox_def map_of_eq_None_iff split: option.splits)

lemma deleteSandbox_absent: "map_of (sandboxes (deleteSandbox k r s)) k = None"
  by (simp add: sandboxes_deleteSandbox delete_conv')

lemma executeQuery_absent:
  "map_of (sandboxes s) k = None \<Longrightarrow> executeQuery k query q s = (Inl sessionNotFound, s)"
  by (simp add: executeQuery_def)

lemma getOrCreateSandbox_absent:
  "map_of (sandboxes s) k = None \<Longrightarrow>
   getOrCreateSandbox (req\<lparr>r_sessionId := Some k\<rparr>) e s =
   getOrCreateSandbox (req\<lparr>r_sessionId := None\<rparr>) e s"
  by (simp add: getOrCreateSandbox_def requestEngine_def Let_def cong: option.case_cong if_cong)

lemma sandboxes_fold_deleteSandbox:
  "sandboxes (foldl (\<lambda>st k. deleteSandbox k (f k) st) s ks) =
     filter (\<lambda>(k, sb). k \<notin> set ks) (sandboxes s)"
proof (induction ks arbitrary: s)
  case Nil
  then show ?case by simp
next
  case (Cons k ks)
  have "filter (\<lambda>(k', sb). k' \<notin> set ks) (AList.delete k (sandboxes s)) =
        filter (\<lambda>(k', sb). k' \<notin> set (k # ks)) (sandboxes s)"
    by (auto simp: AList.delete_eq intro!: filter_cong)
  then show ?case by (simp add: Cons.IH sandboxes_deleteSandbox)
qed

lemma cleanup_absent:
  "k \<in> set (expiredKeys (gc_now g) (ttlMs (config s)) (sandboxes s)) \<Longrightarrow>
   map_of (sandboxes (cleanupExpiredSandboxes g s)) k = None"
  by (auto simp: cleanupExpiredSandboxes_def sandboxes_fold_deleteSandbox map_of_eq_None_iff)

text \<open>
  C5. A session key that names no record of the registry makes \<open>executeQuery\<close> fail with
  the error "Sandbox session not found or expired" and changes nothing: no statement is
  sent to any sandbox. This is so whatever made the key unknown: it was never
  registered, its sandbox was deleted (this is also the state in which a rebuild starts
  to provision, after it deleted the old record), or a cleanup cycle expired it. The
  error is the same value in every case.
\<close>

theorem executeQuery_unknown_key:
  "(map_of (sandboxes s) k = None \<longrightarrow> executeQuery k query q s = (Inl sessionNotFound, s)) \<and>
   executeQuery k query q (initial c) = (Inl sessionNotFound, initial c) \<and>
   executeQuery k query q (deleteSandbox k r s) = (Inl sessionNotFound, deleteSandbox k r s) \<and>
   (k \<in> set (expiredKeys (gc_now g) (ttlMs (config s)) (sandboxes s)) \<longrightarrow>
      executeQuery k query q (cleanupExpiredSandboxes g s) =
        (Inl sessionNotFound, cleanupExpiredSandboxes g s))"
proof (intro conjI impI)
  show "executeQuery k query q (initial c) = (Inl sessionNotFound, initial c)"
    by (rule executeQuery_absent) (simp add: initial_def)
  show "executeQuery k query q (deleteSandbox k r s) = (Inl sessionNotFound, deleteSandbox k r s)"
    by (rule executeQuery_absent) (rule deleteSandbox_absent)
qed (simp_all add: executeQuery_absent cleanup_absent)

theorem executeQuery_unknown_key_witness:
  "executeQuery ''sandbox_7_zzzzzzzz'' ''SELECT 1'' (ok_query 2000) one_sandbox =
     (Inl (Error ''Sandbox session not found or expired''), one_sandbox) \<and>
   executeQuery ''sandbox_1000_aaaaaaaa'' ''SELECT 1'' (ok_query 6000000)
       (cleanupExpiredSandboxes (ok_gc 6000000) two_sandboxes) =
     (Inl (Error ''Sandbox session not found or expired''),
      cleanupExpiredSandboxes (ok_gc 6000000) two_sandboxes)"
proof -
  have a: "map_of (sandboxes one_sandbox) ''sandbox_7_zzzzzzzz'' = None"
    by (simp add: one_sandbox_def)
  have b: "''sandbox_1000_aaaaaaaa'' \<in> set (expiredKeys (gc_now (ok_gc 6000000))
              (ttlMs (config two_sandboxes)) (sandboxes two_sandboxes))"
    by (simp add: expiredKeys_def isExpired_def two_sandboxes_def example_defs defaultConfig_def)
  from a b show ?thesis
    using executeQuery_unknown_key [of one_sandbox "''sandbox_7_zzzzzzzz''" "''SELECT 1''" "ok_query 2000"]
      executeQuery_unknown_key [of two_sandboxes "''sandbox_1000_aaaaaaaa''" "''SELECT 1''"
         "ok_query 6000000" _ _ "ok_gc 6000000"]
    by (simp add: sessionNotFound_def)
qed

subsection \<open>Validation of a query\<close>

lemma validateQuery_eq:
  "validateQuery q =
     (if \<exists>c\<in>set q. \<not> isWhiteSpace c then \<lparr>valid = True, error = None\<rparr>
      else \<lparr>valid = False, error = Some ''Query cannot be empty''\<rparr>)"
proof -
  have "(q = [] \<or> length (trim q) = 0) \<longleftrightarrow> \<not> (\<exists>c\<in>set q. \<not> isWhiteSpace c)"
    using trim_empty_iff [of q] by auto
  then show ?thesis by (simp add: validateQuery_def)
qed

lemma executeQuery_sends:
  "map_of (sandboxes s) k = Some sb \<Longrightarrow> engine sb = ''postgres'' \<Longrightarrow> q_connect qe = Inr () \<Longrightarrow>
   postgres (snd (executeQuery k q qe s)) = postgres s @ [(hostPort sb, Simple q)]"
  by (simp add: executeQuery_def executePostgresQuery_def Let_def split: sum.splits)

subsection \<open>Cleanup cycles (C6)\<close>

lemma fold_deleteSandbox:
  "distinct (map fst (sandboxes s)) \<Longrightarrow> set es \<subseteq> set (sandboxes s) \<Longrightarrow> distinct (map fst es) \<Longrightarrow>
   foldl (\<lambda>st k. deleteSandbox k (f k) st) s (map fst es) =
     s\<lparr>docker := foldl (\<lambda>d (k, sb). removeContainer (containerId sb) (f k) d) (docker s) es,
       sandboxes := filter (\<lambda>(k, sb). k \<notin> fst ` set es) (sandboxes s)\<rparr>"
proof (induction es arbitrary: s)
  case Nil
  then show ?case by simp
next
  case (Cons e es)
  obtain k sb where e: "e = (k, sb)" by (cases e)
  let ?s1 = "deleteSandbox k (f k) s"
  from Cons.prems e have look: "map_of (sandboxes s) k = Some sb" by simp
  then have s1: "?s1 = s\<lparr>docker := removeContainer (containerId sb) (f k) (docker s),
            sandboxes := AList.delete k (sandboxes s)\<rparr>"
    by (simp add: deleteSandbox_def)
  have d1: "distinct (map fst (sandboxes ?s1))"
    using Cons.prems(1) by (simp add: s1 distinct_delete)
  have sub: "set es \<subseteq> set (sandboxes ?s1)"
    using Cons.prems e by (force simp: s1 AList.delete_eq)
  have d2: "distinct (map fst es)" using Cons.prems by simp
  have "foldl (\<lambda>st k. deleteSandbox k (f k) st) s (map fst (e # es)) =
        foldl (\<lambda>st k. deleteSandbox k (f k) st) ?s1 (map fst es)"
    by (simp add: e)
  also have "\<dots> = ?s1\<lparr>docker := foldl (\<lambda>d (k, sb). removeContainer (containerId sb) (f k) d) (docker ?s1) es,
       sandboxes := filter (\<lambda>(k, sb). k \<notin> fst ` set es) (sandboxes ?s1)\<rparr>"
    by (rule Cons.IH [OF d1 sub d2])
  also have "\<dots> = s\<lparr>docker := foldl (\<lambda>d (k, sb). removeContainer (containerId sb) (f k) d) (docker s) (e # es),
       sandboxes := filter (\<lambda>(k, sb). k \<notin> fst ` set (e # es)) (sandboxes s)\<rparr>"
  proof -
    have "filter (\<lambda>(k', sb). k' \<notin> fst ` set es) (AList.delete k (sandboxes s)) =
          filter (\<lambda>(k', sb). k' \<notin> fst ` set (e # es)) (sandboxes s)"
      by (auto simp: e AList.delete_eq intro!: filter_cong)
    then show ?thesis by (simp add: s1 e)
  qed
  finally show ?case .
qed

lemma cleanupExpiredSandboxes_eq:
  assumes d: "distinct (map fst (sandboxes s))"
  shows "cleanupExpiredSandboxes g s =
     s\<lparr>docker := foldl (\<lambda>d (k, sb). removeContainer (containerId sb) (gc_removal g k) d) (docker s)
                  (filter (\<lambda>(k, sb). isExpired (gc_now g) (ttlMs (config s)) sb) (sandboxes s)),
       sandboxes := filter (\<lambda>(k, sb). \<not> isExpired (gc_now g) (ttlMs (config s)) sb) (sandboxes s)\<rparr>"
proof -
  let ?ex = "filter (\<lambda>(k, sb). isExpired (gc_now g) (ttlMs (config s)) sb) (sandboxes s)"
  have d': "distinct (map fst ?ex)" using d by (rule distinct_map_filter)
  have "cleanupExpiredSandboxes g s =
     s\<lparr>docker := foldl (\<lambda>d (k, sb). removeContainer (containerId sb) (gc_removal g k) d) (docker s) ?ex,
       sandboxes := filter (\<lambda>(k, sb). k \<notin> fst ` set ?ex) (sandboxes s)\<rparr>"
    unfolding cleanupExpiredSandboxes_def expiredKeys_def
    by (rule fold_deleteSandbox [OF d _ d']) simp
  moreover have "filter (\<lambda>(k, sb). k \<notin> fst ` set ?ex) (sandboxes s) =
     filter (\<lambda>(k, sb). \<not> isExpired (gc_now g) (ttlMs (config s)) sb) (sandboxes s)"
  proof (rule filter_cong [OF refl])
    fix x assume x: "x \<in> set (sandboxes s)"
    obtain k sb where kx: "x = (k, sb)" by (cases x)
    have "k \<in> fst ` set ?ex \<longleftrightarrow> isExpired (gc_now g) (ttlMs (config s)) sb"
    proof
      assume "k \<in> fst ` set ?ex"
      then obtain sb' where m: "(k, sb') \<in> set (sandboxes s)"
        and ex: "isExpired (gc_now g) (ttlMs (config s)) sb'" by auto
      from d m x kx have "sb' = sb" by (meson eq_key_imp_eq_value)
      with ex show "isExpired (gc_now g) (ttlMs (config s)) sb" by simp
    next
      assume "isExpired (gc_now g) (ttlMs (config s)) sb"
      with x kx show "k \<in> fst ` set ?ex" by force
    qed
    then show "(case x of (k, sb) \<Rightarrow> k \<notin> fst ` set ?ex) =
               (case x of (k, sb) \<Rightarrow> \<not> isExpired (gc_now g) (ttlMs (config s)) sb)"
      by (simp add: kx)
  qed
  ultimately show ?thesis by simp
qed

lemma cleanup_keeps:
  assumes d: "distinct (map fst (sandboxes s))"
    and m: "map_of (sandboxes s) k = Some sb"
    and n: "\<not> isExpired (gc_now g) (ttlMs (config s)) sb"
  shows "map_of (sandboxes (cleanupExpiredSandboxes g s)) k = Some sb"
proof -
  have "map_of (filter (case_prod (\<lambda>k sb. \<not> isExpired (gc_now g) (ttlMs (config s)) sb))
           (sandboxes s)) k = Some sb"
    using m n by (rule map_of_filter_in)
  then show ?thesis by (simp add: cleanupExpiredSandboxes_eq [OF d])
qed

lemma expired_key:
  "map_of m k = Some sb \<Longrightarrow> isExpired now ttl sb \<Longrightarrow> k \<in> set (expiredKeys now ttl m)"
  by (force simp: expiredKeys_def dest: map_of_SomeD)

text \<open>
  C6. A cleanup cycle is a sequence of \<open>deleteSandbox\<close> calls, one per expired key, the
  operation that explicit deletion uses. On a registry with one record per key it
  removes exactly the records with \<open>now - lastAccessed > ttlMs\<close>: the registry
  afterwards holds the other records, unchanged and in their order, and the daemon has
  been asked to remove the container of each expired record, and of no other. An
  expired key is then unknown: \<open>executeQuery\<close> fails with the not-found error, and
  \<open>getOrCreateSandbox\<close> treats a request presenting it as a request with no key.
\<close>

theorem cleanupExpiredSandboxes_exact:
  assumes "distinct (map fst (sandboxes s))"
  shows
   "cleanupExpiredSandboxes g s =
      foldl (\<lambda>st k. deleteSandbox k (gc_removal g k) st) s
        (expiredKeys (gc_now g) (ttlMs (config s)) (sandboxes s)) \<and>
    cleanupExpiredSandboxes g s =
      s\<lparr>docker := foldl (\<lambda>d (k, sb). removeContainer (containerId sb) (gc_removal g k) d) (docker s)
                   (filter (\<lambda>(k, sb). isExpired (gc_now g) (ttlMs (config s)) sb) (sandboxes s)),
        sandboxes := filter (\<lambda>(k, sb). \<not> isExpired (gc_now g) (ttlMs (config s)) sb) (sandboxes s)\<rparr> \<and>
    (map_of (sandboxes s) k = Some sb \<and> isExpired (gc_now g) (ttlMs (config s)) sb \<longrightarrow>
       map_of (sandboxes (cleanupExpiredSandboxes g s)) k = None \<and>
       executeQuery k query q (cleanupExpiredSandboxes g s) =
         (Inl sessionNotFound, cleanupExpiredSandboxes g s) \<and>
       getOrCreateSandbox (req\<lparr>r_sessionId := Some k\<rparr>) e (cleanupExpiredSandboxes g s) =
         getOrCreateSandbox (req\<lparr>r_sessionId := None\<rparr>) e (cleanupExpiredSandboxes g s)) \<and>
    (map_of (sandboxes s) k = Some sb \<and> \<not> isExpired (gc_now g) (ttlMs (config s)) sb \<longrightarrow>
       map_of (sandboxes (cleanupExpiredSandboxes g s)) k = Some sb)"
proof (intro conjI impI)
  show "cleanupExpiredSandboxes g s =
      foldl (\<lambda>st k. deleteSandbox k (gc_removal g k) st) s
        (expiredKeys (gc_now g) (ttlMs (config s)) (sandboxes s))"
    by (simp add: cleanupExpiredSandboxes_def)
  show "cleanupExpiredSandboxes g s =
      s\<lparr>docker := foldl (\<lambda>d (k, sb). removeContainer (containerId sb) (gc_removal g k) d) (docker s)
                   (filter (\<lambda>(k, sb). isExpired (gc_now g) (ttlMs (config s)) sb) (sandboxes s)),
        sandboxes := filter (\<lambda>(k, sb). \<not> isExpired (gc_now g) (ttlMs (config s)) sb) (sandboxes s)\<rparr>"
    using assms by (rule cleanupExpiredSandboxes_eq)
next
  assume "map_of (sandboxes s) k = Some sb \<and> isExpired (gc_now g) (ttlMs (config s)) sb"
  then have "k \<in> set (expiredKeys (gc_now g) (ttlMs (config s)) (sandboxes s))"
    by (simp add: expired_key)
  then have gone: "map_of (sandboxes (cleanupExpiredSandboxes g s)) k = None"
    by (rule cleanup_absent)
  then show "map_of (sandboxes (cleanupExpiredSandboxes g s)) k = None" .
  from gone show "executeQuery k query q (cleanupExpiredSandboxes g s) =
         (Inl sessionNotFound, cleanupExpiredSandboxes g s)"
    by (rule executeQuery_absent)
  from gone show "getOrCreateSandbox (req\<lparr>r_sessionId := Some k\<rparr>) e (cleanupExpiredSandboxes g s) =
         getOrCreateSandbox (req\<lparr>r_sessionId := None\<rparr>) e (cleanupExpiredSandboxes g s)"
    by (rule getOrCreateSandbox_absent)
next
  assume "map_of (sandboxes s) k = Some sb \<and> \<not> isExpired (gc_now g) (ttlMs (config s)) sb"
  then show "map_of (sandboxes (cleanupExpiredSandboxes g s)) k = Some sb"
    using assms by (simp add: cleanup_keeps)
qed

theorem cleanupExpiredSandboxes_exact_witness:
  "cleanupExpiredSandboxes (ok_gc 6000000) two_sandboxes =
     two_sandboxes\<lparr>
       docker := docker two_sandboxes @ [Stopped ''c1'', Removed ''c1''],
       sandboxes := [(''sandbox_5000000_bbbbbbbb'',
                      example_sandbox ''sandbox_5000000_bbbbbbbb'' ''c2'' 49154 5000000)]\<rparr>"
proof -
  have d: "distinct (map fst (sandboxes two_sandboxes))"
    by (simp add: two_sandboxes_def)
  note eq = cleanupExpiredSandboxes_exact [OF d, of "ok_gc 6000000", THEN conjunct2, THEN conjunct1]
  show ?thesis
    by (subst eq)
       (simp add: two_sandboxes_def isExpired_def example_defs defaultConfig_def removeContainer_def)
qed

subsection \<open>The access timestamp (C8)\<close>

lemma deleteSandbox_frame:
  "config (deleteSandbox k r s) = config s \<and> postgres (deleteSandbox k r s) = postgres s"
  by (simp add: deleteSandbox_def split: option.splits)

lemma createSandbox_Inr:
  assumes "createSandbox k d x eng h p s = (Inr sb, s')"
  shows "\<exists>cid port lg.
     sb = \<lparr>sessionId = k, dbml = d, dataHash = h, engine = eng, containerId = cid,
           hostPort = port, createdAt = createdAt_now p, lastAccessed = lastAccessed_now p\<rparr> \<and>
     s' = s\<lparr>docker := docker s @ [Created cid (containerName k), Started cid], postgres := lg,
            sandboxes := AList.update k sb (sandboxes s)\<rparr> \<and>
     createContainer_result p = Inr cid \<and> allocatePort_result p = Inr port \<and> eng = ''postgres''"
  using assms
  by (auto simp: createSandbox_def launchPostgresContainer_def Let_def
           split: if_splits sum.splits prod.splits)

lemma getOrCreateSandbox_reuse:
  assumes "r_sessionId req = Some k" "k \<noteq> []" "map_of (sandboxes s) k = Some sb"
    and "dbml sb = r_dbml req" "dataHash sb = computeDataHash (r_dbml req) (r_data req)"
  shows "getOrCreateSandbox req e s =
     (Inr (sb\<lparr>lastAccessed := touch_now e\<rparr>),
      s\<lparr>sandboxes := AList.update k (sb\<lparr>lastAccessed := touch_now e\<rparr>) (sandboxes s)\<rparr>)"
  using assms by (simp add: getOrCreateSandbox_def Let_def)

lemma getOrCreateSandbox_drift:
  assumes "r_sessionId req = Some k" "k \<noteq> []" "map_of (sandboxes s) k = Some old"
    and "dbml old \<noteq> r_dbml req \<or> dataHash old \<noteq> computeDataHash (r_dbml req) (r_data req)"
  shows "getOrCreateSandbox req e s =
     replaceSandbox (sessionId old) (r_dbml req) (r_data req) (requestEngine req)
       (computeDataHash (r_dbml req) (r_data req)) e s"
  using assms by (auto simp: getOrCreateSandbox_def Let_def)

lemma executeQuery_touch:
  "map_of (sandboxes s) k = Some sb \<Longrightarrow>
   sandboxes (snd (executeQuery k query q s)) =
     AList.update k (sb\<lparr>lastAccessed := q_now q\<rparr>) (sandboxes s)"
  by (simp add: executeQuery_def Let_def split: prod.splits)

lemma executeQuery_frame:
  "config (snd (executeQuery k query q s)) = config s \<and>
   docker (snd (executeQuery k query q s)) = docker s"
  by (simp add: executeQuery_def Let_def split: prod.splits option.splits)

lemma rebuild_Inr:
  assumes "r_sessionId req = Some k" "k \<noteq> []" "map_of (sandboxes s) k = Some old"
    and "sessionId old = k"
    and "dbml old \<noteq> r_dbml req \<or> dataHash old \<noteq> computeDataHash (r_dbml req) (r_data req)"
    and "getOrCreateSandbox req e s = (Inr sb, s')"
  shows "sessionId sb = k \<and> dbml sb = r_dbml req \<and>
         dataHash sb = computeDataHash (r_dbml req) (r_data req) \<and>
         createdAt sb = createdAt_now (provision e) \<and>
         lastAccessed sb = lastAccessed_now (provision e) \<and>
         sandboxes s' = AList.update k sb (AList.delete k (sandboxes s)) \<and>
         config s' = config s"
proof -
  from assms have "createSandbox k (r_dbml req) (r_data req) (requestEngine req)
       (computeDataHash (r_dbml req) (r_data req)) (provision e)
       (deleteSandbox k (removal e) s) = (Inr sb, s')"
    by (simp add: getOrCreateSandbox_drift replaceSandbox_def)
  from createSandbox_Inr [OF this] show ?thesis
    by (auto simp: sandboxes_deleteSandbox deleteSandbox_frame)
qed

lemma rebuild_example:
  "getOrCreateSandbox changed_request (ok_env ''cccccccc'' ''c3'' 49155 7000000) one_sandbox =
     (Inr rebuilt_sandbox, rebuilt_state)"
  by (simp add: run_defs example_defs changed_request_def one_sandbox_def rebuilt_sandbox_def
        rebuilt_state_def send_all_ok)

lemma send_all_returns:
  "list_all (\<lambda>j. out j = Inr ()) [i..<i + length sts] \<Longrightarrow>
   send_all port out i sts lg = (Inr (), lg @ map (Pair port) sts)"
proof (induction sts arbitrary: i lg)
  case Nil
  then show ?case by simp
next
  case (Cons st sts)
  from Cons.prems have all: "\<forall>j\<in>set [i..<i + length (st # sts)]. out j = Inr ()"
    by (simp only: list_all_iff)
  have "i \<in> set [i..<i + length (st # sts)]" by simp
  with all have here: "out i = Inr ()" by (rule bspec)
  have rest: "list_all (\<lambda>j. out j = Inr ()) [Suc i..<Suc i + length sts]"
    unfolding list_all_iff
  proof
    fix j assume "j \<in> set [Suc i..<Suc i + length sts]"
    then have "j \<in> set [i..<i + length (st # sts)]" by auto
    with all show "out j = Inr ()" by (rule bspec)
  qed
  from Cons.IH [OF rest] here show ?case by simp
qed

lemma createSandbox_returns:
  assumes "all_calls_return p cid port (length (seedStatements (schema_of p d) x))"
  shows "createSandbox k d x ''postgres'' h p s =
     (Inr \<lparr>sessionId = k, dbml = d, dataHash = h, engine = ''postgres'', containerId = cid,
           hostPort = port, createdAt = createdAt_now p, lastAccessed = lastAccessed_now p\<rparr>,
      s\<lparr>docker := docker s @ [Created cid (containerName k), Started cid],
        postgres := postgres s @ map (Pair port) (seedStatements (schema_of p d) x),
        sandboxes := AList.update k
          \<lparr>sessionId = k, dbml = d, dataHash = h, engine = ''postgres'', containerId = cid,
           hostPort = port, createdAt = createdAt_now p, lastAccessed = lastAccessed_now p\<rparr>
          (sandboxes s)\<rparr>)"
proof -
  from assms have image: "ensureImage ''postgres'' p = Inr ()"
    by (auto simp: all_calls_return_def ensureImage_def split: sum.splits)
  from assms have calls: "allocatePort_result p = Inr port" "createContainer_result p = Inr cid"
    "start_result p = Inr ()" "ready_result p = Inr ()" "connect_result p = Inr ()"
    "end_result p = Inr ()"
    by (simp_all add: all_calls_return_def)
  from assms have "list_all (\<lambda>j. statement_result p j = Inr ())
      [0..<0 + length (seedStatements (schema_of p d) x)]"
    by (simp add: all_calls_return_def)
  from send_all_returns [OF this]
  have seed: "seedPostgresDatabase port d x p (postgres s) =
      (Inr (), postgres s @ map (Pair port) (seedStatements (schema_of p d) x))"
    by (simp add: seedPostgresDatabase_def calls)
  show ?thesis
    by (simp add: createSandbox_def launchPostgresContainer_def Let_def image calls seed)
qed

lemma registry_ok_key:
  "registry_ok s \<Longrightarrow> map_of (sandboxes s) k = Some sb \<Longrightarrow> sessionId sb = k"
  by (auto simp: registry_ok_def list_all_iff dest: map_of_SomeD)

text \<open>
  C8. Reusing a record and querying a registered session each write the current time
  into the record's \<open>lastAccessed\<close> and change no other field of it, nor any other
  record: the registry afterwards is the old one with that one field updated (the query
  does so whether or not the statement then succeeds). A rebuild whose calls to the
  daemon and to the server all return does return a record, installed under the key,
  whose \<open>lastAccessed\<close> is the time read as the rebuild completes; a cleanup cycle keeps
  that record as long as the time since then is within the TTL.
\<close>

theorem lastAccessed_refreshed:
  "(r_sessionId req = Some k \<and> k \<noteq> [] \<and> map_of (sandboxes s) k = Some sb \<and>
      dbml sb = r_dbml req \<and> dataHash sb = computeDataHash (r_dbml req) (r_data req) \<longrightarrow>
    getOrCreateSandbox req e s =
      (Inr (sb\<lparr>lastAccessed := touch_now e\<rparr>),
       s\<lparr>sandboxes := AList.update k (sb\<lparr>lastAccessed := touch_now e\<rparr>) (sandboxes s)\<rparr>)) \<and>
   (map_of (sandboxes s) k = Some sb \<longrightarrow>
    sandboxes (snd (executeQuery k query q s)) =
      AList.update k (sb\<lparr>lastAccessed := q_now q\<rparr>) (sandboxes s)) \<and>
   (registry_ok s \<and> r_sessionId req = Some k \<and> k \<noteq> [] \<and> map_of (sandboxes s) k = Some old \<and>
      (dbml old \<noteq> r_dbml req \<or> dataHash old \<noteq> computeDataHash (r_dbml req) (r_data req)) \<and>
      requestEngine req = ''postgres'' \<and>
      all_calls_return (provision e) cid port
        (length (seedStatements (schema_of (provision e) (r_dbml req)) (r_data req))) \<and>
      new = \<lparr>sessionId = k, dbml = r_dbml req,
             dataHash = computeDataHash (r_dbml req) (r_data req), engine = ''postgres'',
             containerId = cid, hostPort = port, createdAt = createdAt_now (provision e),
             lastAccessed = lastAccessed_now (provision e)\<rparr> \<longrightarrow>
    fst (getOrCreateSandbox req e s) = Inr new \<and>
    map_of (sandboxes (snd (getOrCreateSandbox req e s))) k = Some new \<and>
    (gc_now g - lastAccessed_now (provision e) \<le> ttlMs (config s) \<longrightarrow>
       map_of (sandboxes (cleanupExpiredSandboxes g (snd (getOrCreateSandbox req e s)))) k =
         Some new))"
proof (intro conjI impI)
  assume "r_sessionId req = Some k \<and> k \<noteq> [] \<and> map_of (sandboxes s) k = Some sb \<and>
      dbml sb = r_dbml req \<and> dataHash sb = computeDataHash (r_dbml req) (r_data req)"
  then show "getOrCreateSandbox req e s =
      (Inr (sb\<lparr>lastAccessed := touch_now e\<rparr>),
       s\<lparr>sandboxes := AList.update k (sb\<lparr>lastAccessed := touch_now e\<rparr>) (sandboxes s)\<rparr>)"
    by (simp add: getOrCreateSandbox_reuse)
next
  assume "map_of (sandboxes s) k = Some sb"
  then show "sandboxes (snd (executeQuery k query q s)) =
      AList.update k (sb\<lparr>lastAccessed := q_now q\<rparr>) (sandboxes s)"
    by (rule executeQuery_touch)
next
  assume a: "registry_ok s \<and> r_sessionId req = Some k \<and> k \<noteq> [] \<and>
      map_of (sandboxes s) k = Some old \<and>
      (dbml old \<noteq> r_dbml req \<or> dataHash old \<noteq> computeDataHash (r_dbml req) (r_data req)) \<and>
      requestEngine req = ''postgres'' \<and>
      all_calls_return (provision e) cid port
        (length (seedStatements (schema_of (provision e) (r_dbml req)) (r_data req))) \<and>
      new = \<lparr>sessionId = k, dbml = r_dbml req,
             dataHash = computeDataHash (r_dbml req) (r_data req), engine = ''postgres'',
             containerId = cid, hostPort = port, createdAt = createdAt_now (provision e),
             lastAccessed = lastAccessed_now (provision e)\<rparr>"
  let ?sD = "deleteSandbox k (removal e) s"
  from a have key: "sessionId old = k" using registry_ok_key [of s k old] by blast
  from a have calls: "all_calls_return (provision e) cid port
      (length (seedStatements (schema_of (provision e) (r_dbml req)) (r_data req)))"
    by simp
  from a key have "getOrCreateSandbox req e s =
      createSandbox k (r_dbml req) (r_data req) ''postgres''
        (computeDataHash (r_dbml req) (r_data req)) (provision e) ?sD"
    using getOrCreateSandbox_drift [of req k s old e] by (simp add: replaceSandbox_def)
  with createSandbox_returns [OF calls, of k "computeDataHash (r_dbml req) (r_data req)" ?sD] a
  have run: "getOrCreateSandbox req e s =
      (Inr new, ?sD\<lparr>docker := docker ?sD @ [Created cid (containerName k), Started cid],
         postgres := postgres ?sD @ map (Pair port)
           (seedStatements (schema_of (provision e) (r_dbml req)) (r_data req)),
         sandboxes := AList.update k new (sandboxes ?sD)\<rparr>)"
    by simp
  from run show "fst (getOrCreateSandbox req e s) = Inr new" by simp
  from run show m: "map_of (sandboxes (snd (getOrCreateSandbox req e s))) k = Some new"
    by (simp add: update_conv')
  from a have "distinct (map fst (sandboxes s))" by (simp add: registry_ok_def)
  with run have d: "distinct (map fst (sandboxes (snd (getOrCreateSandbox req e s))))"
    by (simp add: sandboxes_deleteSandbox distinct_update distinct_delete)
  from run have c: "config (snd (getOrCreateSandbox req e s)) = config s"
    by (simp add: deleteSandbox_frame)
  assume "gc_now g - lastAccessed_now (provision e) \<le> ttlMs (config s)"
  with a c have "\<not> isExpired (gc_now g) (ttlMs (config (snd (getOrCreateSandbox req e s)))) new"
    by (simp add: isExpired_def)
  with d m show "map_of (sandboxes (cleanupExpiredSandboxes g (snd (getOrCreateSandbox req e s)))) k =
         Some new"
    by (rule cleanup_keeps)
qed

theorem lastAccessed_refreshed_witness:
  "getOrCreateSandbox (example_request\<lparr>r_sessionId := Some ''sandbox_1000_aaaaaaaa''\<rparr>)
      (ok_env ''dddddddd'' ''c9'' 49160 2000) one_sandbox =
     (Inr ((example_sandbox ''sandbox_1000_aaaaaaaa'' ''c1'' 49153 1000)\<lparr>lastAccessed := 2000\<rparr>),
      one_sandbox\<lparr>sandboxes := [(''sandbox_1000_aaaaaaaa'',
         (example_sandbox ''sandbox_1000_aaaaaaaa'' ''c1'' 49153 1000)\<lparr>lastAccessed := 2000\<rparr>)]\<rparr>) \<and>
   sandboxes (snd (executeQuery ''sandbox_1000_aaaaaaaa'' ''SELECT 1'' (ok_query 3000) one_sandbox)) =
     [(''sandbox_1000_aaaaaaaa'',
       (example_sandbox ''sandbox_1000_aaaaaaaa'' ''c1'' 49153 1000)\<lparr>lastAccessed := 3000\<rparr>)] \<and>
   fst (getOrCreateSandbox changed_request (ok_env ''cccccccc'' ''c3'' 49155 7000000) one_sandbox) =
     Inr rebuilt_sandbox \<and>
   lastAccessed rebuilt_sandbox = 7000000 \<and>
   map_of (sandboxes (snd (getOrCreateSandbox changed_request
        (ok_env ''cccccccc'' ''c3'' 49155 7000000) one_sandbox))) ''sandbox_1000_aaaaaaaa'' =
     Some rebuilt_sandbox \<and>
   map_of (sandboxes (cleanupExpiredSandboxes (ok_gc 7000001)
        (snd (getOrCreateSandbox changed_request
           (ok_env ''cccccccc'' ''c3'' 49155 7000000) one_sandbox)))) ''sandbox_1000_aaaaaaaa'' =
     Some rebuilt_sandbox"
proof -
  let ?k = "''sandbox_1000_aaaaaaaa''"
  let ?sb = "example_sandbox ?k ''c1'' 49153 1000"
  let ?e = "ok_env ''cccccccc'' ''c3'' 49155 7000000"
  have look: "map_of (sandboxes one_sandbox) ?k = Some ?sb" by (simp add: one_sandbox_def)
  have reuse: "r_sessionId (example_request\<lparr>r_sessionId := Some ?k\<rparr>) = Some ?k \<and> ?k \<noteq> [] \<and>
      map_of (sandboxes one_sandbox) ?k = Some ?sb \<and>
      dbml ?sb = r_dbml (example_request\<lparr>r_sessionId := Some ?k\<rparr>) \<and>
      dataHash ?sb = computeDataHash (r_dbml (example_request\<lparr>r_sessionId := Some ?k\<rparr>))
         (r_data (example_request\<lparr>r_sessionId := Some ?k\<rparr>))"
    by (simp add: one_sandbox_def example_sandbox_def)
  have ok: "registry_ok one_sandbox"
    by (simp add: registry_ok_def one_sandbox_def example_sandbox_def)
  have calls: "all_calls_return (provision ?e) ''c3'' 49155
      (length (seedStatements (schema_of (provision ?e) (r_dbml changed_request))
         (r_data changed_request)))"
    by (simp add: all_calls_return_def ok_env_def ok_provision_def list_all_iff)
  have new: "rebuilt_sandbox = \<lparr>sessionId = ?k, dbml = r_dbml changed_request,
      dataHash = computeDataHash (r_dbml changed_request) (r_data changed_request),
      engine = ''postgres'', containerId = ''c3'', hostPort = 49155,
      createdAt = createdAt_now (provision ?e), lastAccessed = lastAccessed_now (provision ?e)\<rparr>"
    by (simp add: rebuilt_sandbox_def ok_env_def ok_provision_def)
  have drift: "registry_ok one_sandbox \<and> r_sessionId changed_request = Some ?k \<and> ?k \<noteq> [] \<and>
      map_of (sandboxes one_sandbox) ?k = Some ?sb \<and>
      (dbml ?sb \<noteq> r_dbml changed_request \<or>
       dataHash ?sb \<noteq> computeDataHash (r_dbml changed_request) (r_data changed_request)) \<and>
      requestEngine changed_request = ''postgres'' \<and>
      all_calls_return (provision ?e) ''c3'' 49155
        (length (seedStatements (schema_of (provision ?e) (r_dbml changed_request))
           (r_data changed_request))) \<and>
      rebuilt_sandbox = \<lparr>sessionId = ?k, dbml = r_dbml changed_request,
        dataHash = computeDataHash (r_dbml changed_request) (r_data changed_request),
        engine = ''postgres'', containerId = ''c3'', hostPort = 49155,
        createdAt = createdAt_now (provision ?e), lastAccessed = lastAccessed_now (provision ?e)\<rparr>"
    using ok calls new look
    by (simp add: changed_request_def requestEngine_def example_sandbox_def example_request_def)
  have ttl: "gc_now (ok_gc 7000001) - lastAccessed_now (provision ?e) \<le> ttlMs (config one_sandbox)"
    by (simp add: example_defs one_sandbox_def defaultConfig_def)
  note t1 = lastAccessed_refreshed [where req = "example_request\<lparr>r_sessionId := Some ?k\<rparr>"
      and k = ?k and s = one_sandbox and sb = ?sb and e = "ok_env ''dddddddd'' ''c9'' 49160 2000"
      and query = "''SELECT 1''" and q = "ok_query 3000"]
  note t2 = lastAccessed_refreshed [where req = changed_request
      and k = ?k and s = one_sandbox and old = ?sb and e = ?e and cid = "''c3''" and port = 49155
      and new = rebuilt_sandbox and g = "ok_gc 7000001"]
  from t1 reuse look have a: "getOrCreateSandbox (example_request\<lparr>r_sessionId := Some ?k\<rparr>)
      (ok_env ''dddddddd'' ''c9'' 49160 2000) one_sandbox =
     (Inr (?sb\<lparr>lastAccessed := touch_now (ok_env ''dddddddd'' ''c9'' 49160 2000)\<rparr>),
      one_sandbox\<lparr>sandboxes := AList.update ?k
         (?sb\<lparr>lastAccessed := touch_now (ok_env ''dddddddd'' ''c9'' 49160 2000)\<rparr>)
         (sandboxes one_sandbox)\<rparr>)"
    and b: "sandboxes (snd (executeQuery ?k ''SELECT 1'' (ok_query 3000) one_sandbox)) =
      AList.update ?k (?sb\<lparr>lastAccessed := q_now (ok_query 3000)\<rparr>) (sandboxes one_sandbox)"
    by blast+
  from t2 drift ttl have c: "fst (getOrCreateSandbox changed_request ?e one_sandbox) =
        Inr rebuilt_sandbox"
    and d: "map_of (sandboxes (snd (getOrCreateSandbox changed_request ?e one_sandbox))) ?k =
        Some rebuilt_sandbox"
    and f: "map_of (sandboxes (cleanupExpiredSandboxes (ok_gc 7000001)
        (snd (getOrCreateSandbox changed_request ?e one_sandbox)))) ?k = Some rebuilt_sandbox"
    by blast+
  have l: "lastAccessed rebuilt_sandbox = 7000000" by (simp add: rebuilt_sandbox_def)
  show ?thesis
    by (simp add: a b c d f l) (simp add: example_defs one_sandbox_def)
qed

subsection \<open>Rollback of a failed provisioning (C2)\<close>

lemma live_containers_snoc:
  "live_containers (d @ [ev]) = docker_apply (live_containers d) ev"
  by (simp add: live_containers_def)

lemma removed_not_live: "cid \<notin> fst ` set (live_containers (d @ [Removed cid]))"
  by (auto simp: live_containers_snoc)

lemma safeRemoveContainer_removes:
  "remove_result r = Inr () \<Longrightarrow> cid \<notin> fst ` set (live_containers (safeRemoveContainer cid r d))"
  by (simp add: safeRemoveContainer_def Let_def removed_not_live split: sum.splits)

lemma createSandbox_failure_after_launch:
  assumes "ensureImage ''postgres'' p = Inr ()" "allocatePort_result p = Inr port"
    and "createContainer_result p = Inr cid" "start_result p = Inr ()"
    and "ready_result p = Inl err \<or>
         (ready_result p = Inr () \<and> fst (seedPostgresDatabase port d x p (postgres s)) = Inl err)"
  shows "fst (createSandbox k d x ''postgres'' h p s) = Inl err \<and>
     sandboxes (snd (createSandbox k d x ''postgres'' h p s)) = sandboxes s \<and>
     config (snd (createSandbox k d x ''postgres'' h p s)) = config s \<and>
     docker (snd (createSandbox k d x ''postgres'' h p s)) =
       safeRemoveContainer cid (rollback p) (docker s @ [Created cid (containerName k), Started cid])"
  using assms
  by (auto simp: createSandbox_def launchPostgresContainer_def Let_def
           split: sum.splits prod.splits)

text \<open>
  C2 (as amended). When the container has been launched and awaiting readiness or
  seeding then fails, \<open>createSandbox\<close> returns that same error, leaves the registry as
  it was (no record under the key, no fingerprint), and asks the daemon to stop and to
  remove the container. The removal is best effort: its failure is logged and
  swallowed. When the daemon does remove the container, the container is no longer
  live afterwards.
\<close>

theorem createSandbox_rollback:
  assumes "ensureImage ''postgres'' p = Inr ()" "allocatePort_result p = Inr port"
    and "createContainer_result p = Inr cid" "start_result p = Inr ()"
    and "ready_result p = Inl err \<or>
         (ready_result p = Inr () \<and> fst (seedPostgresDatabase port d x p (postgres s)) = Inl err)"
  shows "fst (createSandbox k d x ''postgres'' h p s) = Inl err \<and>
     sandboxes (snd (createSandbox k d x ''postgres'' h p s)) = sandboxes s \<and>
     docker (snd (createSandbox k d x ''postgres'' h p s)) =
       safeRemoveContainer cid (rollback p) (docker s @ [Created cid (containerName k), Started cid]) \<and>
     (remove_result (rollback p) = Inr () \<longrightarrow>
        cid \<notin> fst ` set (live_containers (docker (snd (createSandbox k d x ''postgres'' h p s)))))"
  using createSandbox_failure_after_launch [OF assms, of k h]
  by (simp add: safeRemoveContainer_removes)

theorem createSandbox_rollback_witness:
  "fst (createSandbox ''sandbox_1000_aaaaaaaa'' (r_dbml example_request) (r_data example_request)
          ''postgres'' ''h'' (unready_provision\<lparr>rollback := ok_removal\<rparr>) (initial defaultConfig)) =
     Inl (Error ''Postgres sandbox failed to become ready within 60000ms'') \<and>
   sandboxes (snd (createSandbox ''sandbox_1000_aaaaaaaa'' (r_dbml example_request)
          (r_data example_request) ''postgres'' ''h'' (unready_provision\<lparr>rollback := ok_removal\<rparr>)
          (initial defaultConfig))) = [] \<and>
   ''c1'' \<notin> fst ` set (live_containers (docker (snd (createSandbox ''sandbox_1000_aaaaaaaa''
          (r_dbml example_request) (r_data example_request) ''postgres'' ''h''
          (unready_provision\<lparr>rollback := ok_removal\<rparr>) (initial defaultConfig)))))"
proof -
  let ?p = "unready_provision\<lparr>rollback := ok_removal\<rparr>"
  have 1: "ensureImage ''postgres'' ?p = Inr ()"
    by (simp add: ensureImage_def unready_provision_def ok_provision_def)
  have 2: "allocatePort_result ?p = Inr 49153" "createContainer_result ?p = Inr ''c1''"
    "start_result ?p = Inr ()"
    by (simp_all add: unready_provision_def ok_provision_def)
  have 3: "ready_result ?p = Inl (Error ''Postgres sandbox failed to become ready within 60000ms'') \<or>
     (ready_result ?p = Inr () \<and>
      fst (seedPostgresDatabase 49153 (r_dbml example_request) (r_data example_request) ?p
             (postgres (initial defaultConfig))) =
        Inl (Error ''Postgres sandbox failed to become ready within 60000ms''))"
    by (simp add: unready_provision_def ok_provision_def)
  have 4: "remove_result (rollback ?p) = Inr ()" by (simp add: ok_removal_def)
  note t = createSandbox_rollback [OF 1 2 3, of "''sandbox_1000_aaaaaaaa''" "''h''"]
  from t [THEN conjunct1] t [THEN conjunct2, THEN conjunct1]
    t [THEN conjunct2, THEN conjunct2, THEN conjunct2, THEN mp, OF 4]
  show ?thesis by (simp add: initial_def)
qed

text \<open>
  The claim as stated fails when the daemon refuses the removal: the launched container
  is still live after \<open>createSandbox\<close> has returned the error.
\<close>

theorem createSandbox_rollback_counterexample:
  "fst (createSandbox ''sandbox_1000_aaaaaaaa'' (r_dbml example_request) (r_data example_request)
          ''postgres'' ''h'' unready_provision (initial defaultConfig)) =
     Inl (Error ''Postgres sandbox failed to become ready within 60000ms'') \<and>
   live_containers (docker (snd (createSandbox ''sandbox_1000_aaaaaaaa''
          (r_dbml example_request) (r_data example_request) ''postgres'' ''h''
          unready_provision (initial defaultConfig)))) =
     [(''c1'', containerName ''sandbox_1000_aaaaaaaa'')]"
  by (simp add: run_defs example_defs unready_provision_def live_containers_def)

subsection \<open>Rebuild on drift (C4)\<close>

lemma creations_append: "creations (xs @ ys) = creations xs + creations ys"
  by (induction xs rule: creations.induct) auto

lemma attributed_snoc:
  "attributed k (d @ [ev]) =
     (case ev of
        Created cid name \<Rightarrow> if name = containerName k then attributed k d @ [cid] else attributed k d
      | Removed cid \<Rightarrow> filter (\<lambda>c. c \<noteq> cid) (attributed k d)
      | _ \<Rightarrow> attributed k d)"
  by (cases ev) (auto simp: attributed_def live_containers_snoc filter_map comp_def split_def
        intro!: filter_cong arg_cong [where f = "map fst"])

lemma attributed_bound:
  "length (attributed k (d @ evs)) \<le> length (attributed k d) + creations evs"
proof (induction evs rule: rev_induct)
  case Nil
  then show ?case by simp
next
  case (snoc ev evs)
  have "length (attributed k ((d @ evs) @ [ev])) \<le> length (attributed k (d @ evs)) + creations [ev]"
    unfolding attributed_snoc by (cases ev) (auto simp: le_SucI)
  with snoc show ?case by (simp add: creations_append)
qed

lemma removeContainer_events:
  "\<exists>evs. removeContainer cid r d = d @ evs \<and> creations evs = 0"
  by (auto simp: removeContainer_def Let_def split: sum.splits)

lemma removeContainer_attributed:
  "remove_result r = Inr () \<Longrightarrow>
   attributed k (removeContainer cid r d) = filter (\<lambda>c. c \<noteq> cid) (attributed k d)"
  by (auto simp: removeContainer_def Let_def attributed_snoc split: sum.splits)

lemma safeRemoveContainer_events:
  "\<exists>evs. safeRemoveContainer cid r d = d @ evs \<and> creations evs = 0"
  by (auto simp: safeRemoveContainer_def Let_def split: sum.splits)

lemma createSandbox_events:
  "\<exists>evs. docker (snd (createSandbox k d x eng h p s)) = docker s @ evs \<and> creations evs \<le> 1"
proof -
  have r: "\<And>cid. \<exists>evs. safeRemoveContainer cid (rollback p)
             (docker s @ [Created cid (containerName k), Started cid]) = docker s @ evs \<and>
             creations evs \<le> Suc 0"
  proof -
    fix cid
    obtain evs where "safeRemoveContainer cid (rollback p)
             (docker s @ [Created cid (containerName k), Started cid]) =
             (docker s @ [Created cid (containerName k), Started cid]) @ evs" "creations evs = 0"
      using safeRemoveContainer_events by blast
    then have "safeRemoveContainer cid (rollback p)
             (docker s @ [Created cid (containerName k), Started cid]) =
             docker s @ ([Created cid (containerName k), Started cid] @ evs) \<and>
             creations ([Created cid (containerName k), Started cid] @ evs) \<le> Suc 0"
      by (simp add: creations_append)
    then show "\<exists>evs. safeRemoveContainer cid (rollback p)
             (docker s @ [Created cid (containerName k), Started cid]) = docker s @ evs \<and>
             creations evs \<le> Suc 0" by blast
  qed
  have e1: "\<And>cid. \<exists>evs. docker s @ [Created cid (containerName k)] = docker s @ evs \<and> creations evs \<le> 1"
    by (rule exI [where x = "[Created _ _]"]) simp
  have e2: "\<And>cid. \<exists>evs. docker s @ [Created cid (containerName k), Started cid] = docker s @ evs \<and> creations evs \<le> 1"
    by (rule exI [where x = "[Created _ _, Started _]"]) simp
  show ?thesis
    by (auto simp: createSandbox_def launchPostgresContainer_def Let_def r e1 e2
           split: sum.splits prod.splits)
qed

lemma creations_prefix: "prefix u evs \<Longrightarrow> creations u \<le> creations evs"
  by (auto simp: prefix_def creations_append)

lemma rebuild_points:
  assumes old: "attributed k d0 = [c]"
    and rem: "attributed k (d0 @ evsR) = []" "creations evsR = 0"
    and cre: "creations evsC \<le> 1"
    and h: "prefix d0 h" "prefix h (d0 @ evsR @ evsC)"
  shows "length (attributed k h) \<le> 1"
proof -
  from h(1) obtain t where t: "h = d0 @ t" by (auto simp: prefix_def)
  with h(2) have "prefix t (evsR @ evsC)" by simp
  then consider "prefix t evsR" | u where "t = evsR @ u" "prefix u evsC"
    by (auto simp: prefix_append)
  then show ?thesis
  proof cases
    case 1
    then have "creations t = 0" using creations_prefix [of t evsR] rem(2) by simp
    with attributed_bound [of k d0 t] old show ?thesis by (simp add: t)
  next
    case 2
    then have "creations u \<le> 1" using creations_prefix [of u evsC] cre by simp
    with attributed_bound [of k "d0 @ evsR" u] rem(1) show ?thesis by (simp add: t 2(1))
  qed
qed

text \<open>
  C4 (as amended). A request whose key names a record with another schema or other
  seed data is served by \<open>deleteSandbox\<close> followed by \<open>createSandbox\<close> under the same
  key: the old record is removed, and the removal of the old container attempted,
  before the new container is created. The removal is best effort. When the old
  container is the only live one attributed to the key and the daemon carries out its
  removal, the old container is gone before provisioning starts, at no point of the
  daemon's history during the rebuild are two live containers attributed to the key,
  and a rebuild that succeeds leaves the new record under the key with its container
  the only one attributed to it.
\<close>

theorem rebuild_destroys_before_creating:
  assumes req: "r_sessionId req = Some k" "k \<noteq> []"
    and old: "map_of (sandboxes s) k = Some old" "sessionId old = k"
    and drift: "dbml old \<noteq> r_dbml req \<or>
                dataHash old \<noteq> computeDataHash (r_dbml req) (r_data req)"
    and removed: "remove_result (removal e) = Inr ()"
    and one: "attributed k (docker s) = [containerId old]"
  shows "getOrCreateSandbox req e s =
       createSandbox k (r_dbml req) (r_data req) (requestEngine req)
         (computeDataHash (r_dbml req) (r_data req)) (provision e)
         (deleteSandbox k (removal e) s) \<and>
     map_of (sandboxes (deleteSandbox k (removal e) s)) k = None \<and>
     attributed k (docker (deleteSandbox k (removal e) s)) = [] \<and>
     (\<forall>h. prefix (docker s) h \<and> prefix h (docker (snd (getOrCreateSandbox req e s))) \<longrightarrow>
          length (attributed k h) \<le> 1) \<and>
     (\<forall>new. fst (getOrCreateSandbox req e s) = Inr new \<longrightarrow>
          map_of (sandboxes (snd (getOrCreateSandbox req e s))) k = Some new \<and>
          attributed k (docker (snd (getOrCreateSandbox req e s))) = [containerId new])"
proof -
  let ?sD = "deleteSandbox k (removal e) s"
  let ?create = "createSandbox k (r_dbml req) (r_data req) (requestEngine req)
         (computeDataHash (r_dbml req) (r_data req)) (provision e) ?sD"
  have eq: "getOrCreateSandbox req e s = ?create"
    using req old drift by (simp add: getOrCreateSandbox_drift replaceSandbox_def)
  have dD: "docker ?sD = removeContainer (containerId old) (removal e) (docker s)"
    using old by (simp add: deleteSandbox_def)
  have gone: "attributed k (docker ?sD) = []"
    using removed one by (simp add: dD removeContainer_attributed)
  obtain evsR where evsR: "docker ?sD = docker s @ evsR" "creations evsR = 0"
    using removeContainer_events [of "containerId old" "removal e" "docker s"] dD by auto
  obtain evsC where evsC: "docker (snd ?create) = docker ?sD @ evsC" "creations evsC \<le> 1"
    using createSandbox_events by blast
  have points: "\<forall>h. prefix (docker s) h \<and> prefix h (docker (snd (getOrCreateSandbox req e s))) \<longrightarrow>
          length (attributed k h) \<le> 1"
  proof (intro allI impI)
    fix h assume h: "prefix (docker s) h \<and> prefix h (docker (snd (getOrCreateSandbox req e s)))"
    then have "prefix h (docker s @ evsR @ evsC)" by (simp add: eq evsC evsR)
    with h one gone evsR evsC show "length (attributed k h) \<le> 1"
      using rebuild_points [of k "docker s" "containerId old" evsR evsC h] by simp
  qed
  have success: "\<forall>new. fst (getOrCreateSandbox req e s) = Inr new \<longrightarrow>
          map_of (sandboxes (snd (getOrCreateSandbox req e s))) k = Some new \<and>
          attributed k (docker (snd (getOrCreateSandbox req e s))) = [containerId new]"
  proof (intro allI impI)
    fix new assume "fst (getOrCreateSandbox req e s) = Inr new"
    then have "?create = (Inr new, snd ?create)" by (simp add: eq prod_eq_iff)
    from createSandbox_Inr [OF this] obtain cid port lg where
      new: "containerId new = cid"
      and s': "snd ?create = ?sD\<lparr>docker := docker ?sD @ [Created cid (containerName k), Started cid],
            postgres := lg, sandboxes := AList.update k new (sandboxes ?sD)\<rparr>"
      by auto
    have "attributed k (docker ?sD @ [Created cid (containerName k), Started cid]) = [cid]"
      using attributed_snoc [of k "docker ?sD @ [Created cid (containerName k)]" "Started cid"]
        attributed_snoc [of k "docker ?sD" "Created cid (containerName k)"] gone
      by simp
    then show "map_of (sandboxes (snd (getOrCreateSandbox req e s))) k = Some new \<and>
          attributed k (docker (snd (getOrCreateSandbox req e s))) = [containerId new]"
      by (simp add: eq s' new update_conv')
  qed
  from eq gone points success show ?thesis by (simp add: deleteSandbox_absent)
qed

theorem rebuild_destroys_before_creating_witness:
  "attributed ''sandbox_1000_aaaaaaaa''
      (docker (deleteSandbox ''sandbox_1000_aaaaaaaa''
         (removal (ok_env ''cccccccc'' ''c3'' 49155 7000000)) one_sandbox)) = [] \<and>
   map_of (sandboxes rebuilt_state) ''sandbox_1000_aaaaaaaa'' = Some rebuilt_sandbox \<and>
   attributed ''sandbox_1000_aaaaaaaa'' (docker rebuilt_state) = [''c3'']"
proof -
  let ?k = "''sandbox_1000_aaaaaaaa''"
  let ?old = "example_sandbox ?k ''c1'' 49153 1000"
  let ?e = "ok_env ''cccccccc'' ''c3'' 49155 7000000"
  have 1: "r_sessionId changed_request = Some ?k" "?k \<noteq> []"
    by (simp_all add: changed_request_def)
  have 2: "map_of (sandboxes one_sandbox) ?k = Some ?old" "sessionId ?old = ?k"
    by (simp_all add: one_sandbox_def example_sandbox_def)
  have 3: "dbml ?old \<noteq> r_dbml changed_request \<or>
           dataHash ?old \<noteq> computeDataHash (r_dbml changed_request) (r_data changed_request)"
    by (simp add: example_sandbox_def example_request_def changed_request_def)
  have 4: "remove_result (removal ?e) = Inr ()"
    by (simp add: ok_env_def ok_removal_def)
  have 5: "attributed ?k (docker one_sandbox) = [containerId ?old]"
    by (simp add: attributed_def live_containers_def one_sandbox_def example_sandbox_def)
  note t = rebuild_destroys_before_creating [OF 1 2 3 4 5]
  have r: "fst (getOrCreateSandbox changed_request ?e one_sandbox) = Inr rebuilt_sandbox"
    "snd (getOrCreateSandbox changed_request ?e one_sandbox) = rebuilt_state"
    by (simp_all add: rebuild_example)
  from t [THEN conjunct2, THEN conjunct2, THEN conjunct1]
    t [THEN conjunct2, THEN conjunct2, THEN conjunct2, THEN conjunct2, THEN spec,
       THEN mp, OF r(1)]
  show ?thesis by (simp add: r rebuilt_sandbox_def)
qed

text \<open>
  The claim as stated fails when the daemon refuses to remove the old container: the
  record is removed and provisioning goes ahead all the same. Here the daemon then
  rejects the new container because the old one still holds the name; the request
  fails, the key is unknown afterwards, and the old container is still live.
\<close>

theorem rebuild_destroys_before_creating_counterexample:
  "fst (getOrCreateSandbox changed_request conflict_env one_sandbox) =
     Inl (Error ''Conflict. The container name is already in use'') \<and>
   map_of (sandboxes (snd (getOrCreateSandbox changed_request conflict_env one_sandbox)))
     ''sandbox_1000_aaaaaaaa'' = None \<and>
   live_containers (docker (snd (getOrCreateSandbox changed_request conflict_env one_sandbox))) =
     [(''c1'', containerName ''sandbox_1000_aaaaaaaa'')]"
  by (simp add: run_defs example_defs changed_request_def conflict_env_def one_sandbox_def
        live_containers_def)

subsection \<open>Reuse (C3)\<close>

lemma generateSessionId_nonempty: "generateSessionId now rnd \<noteq> []"
  by (simp add: generateSessionId_def)

lemma first_call_establishes:
  assumes wf: "list_all (\<lambda>(k, sb). sessionId sb = k) (sandboxes s0)"
    and first: "getOrCreateSandbox req e0 s0 = (Inr sb, s1)"
  shows "sessionId sb \<noteq> [] \<and> map_of (sandboxes s1) (sessionId sb) = Some sb \<and>
         dbml sb = r_dbml req \<and> dataHash sb = computeDataHash (r_dbml req) (r_data req)"
proof -
  define n where "n =
            (case r_sessionId req of
               None \<Rightarrow> generateSessionId (id_now e0) (id_random e0)
             | Some k \<Rightarrow>
                 if k \<noteq> [] \<and> map_of (sandboxes s0) k \<noteq> None then k
                 else generateSessionId (id_now e0) (id_random e0))"
  have n: "n \<noteq> []"
    by (simp add: n_def generateSessionId_nonempty split: option.splits)
  let ?h = "computeDataHash (r_dbml req) (r_data req)"
  show ?thesis
  proof (cases "map_of (sandboxes s0) n")
    case None
    with first have "createSandbox n (r_dbml req) (r_data req) (requestEngine req) ?h
        (provision e0) s0 = (Inr sb, s1)"
      by (simp add: getOrCreateSandbox_def Let_def n_def)
    from createSandbox_Inr [OF this] n show ?thesis by (auto simp: update_conv')
  next
    case (Some ex)
    then have "(n, ex) \<in> set (sandboxes s0)" by (rule map_of_SomeD)
    with wf have ex: "sessionId ex = n" by (auto simp: list_all_iff)
    show ?thesis
    proof (cases "dbml ex \<noteq> r_dbml req \<or> dataHash ex \<noteq> ?h")
      case True
      with first Some ex have "createSandbox n (r_dbml req) (r_data req) (requestEngine req) ?h
          (provision e0) (deleteSandbox n (removal e0) s0) = (Inr sb, s1)"
        by (simp add: getOrCreateSandbox_def Let_def n_def replaceSandbox_def)
      from createSandbox_Inr [OF this] n show ?thesis by (auto simp: update_conv')
    next
      case False
      with first Some have "sb = ex\<lparr>lastAccessed := touch_now e0\<rparr>"
        and "s1 = s0\<lparr>sandboxes := AList.update n (ex\<lparr>lastAccessed := touch_now e0\<rparr>) (sandboxes s0)\<rparr>"
        by (auto simp: getOrCreateSandbox_def Let_def n_def)
      with False ex n show ?thesis by (simp add: update_conv')
    qed
  qed
qed

lemma reuse_calls:
  assumes "r_sessionId req = Some k" "k \<noteq> []" "map_of (sandboxes s) k = Some sb"
    and "dbml sb = r_dbml req" "dataHash sb = computeDataHash (r_dbml req) (r_data req)"
  shows "getOrCreateSandbox_calls req es s =
     (map (\<lambda>e. Inr (sb\<lparr>lastAccessed := touch_now e\<rparr>)) es,
      if es = [] then s
      else s\<lparr>sandboxes := AList.update k (sb\<lparr>lastAccessed := touch_now (last es)\<rparr>) (sandboxes s)\<rparr>)"
  using assms
proof (induction es arbitrary: s sb)
  case Nil
  then show ?case by simp
next
  case (Cons e es)
  let ?sb = "sb\<lparr>lastAccessed := touch_now e\<rparr>"
  let ?s = "s\<lparr>sandboxes := AList.update k ?sb (sandboxes s)\<rparr>"
  have step: "getOrCreateSandbox req e s = (Inr ?sb, ?s)"
    using Cons.prems by (rule getOrCreateSandbox_reuse)
  have "getOrCreateSandbox_calls req es ?s =
     (map (\<lambda>e. Inr (?sb\<lparr>lastAccessed := touch_now e\<rparr>)) es,
      if es = [] then ?s
      else ?s\<lparr>sandboxes := AList.update k (?sb\<lparr>lastAccessed := touch_now (last es)\<rparr>) (sandboxes ?s)\<rparr>)"
    using Cons.prems by (intro Cons.IH) (simp_all add: update_conv')
  with step show ?case by simp
qed

text \<open>
  C3 (as amended). Once a call has succeeded, every later call that presents the key
  of the record it returned, with the same schema description and seed data, returns
  that record with a new \<open>lastAccessed\<close> and nothing else changed, creates no container,
  sends nothing to any sandbox, and changes the registry in that one timestamp only.
  The registry is assumed to hold each record under its own \<open>sessionId\<close>, as every
  state that the manager builds does.
\<close>

theorem getOrCreateSandbox_reuses:
  assumes "list_all (\<lambda>(k, sb). sessionId sb = k) (sandboxes s0)"
    and "getOrCreateSandbox req e0 s0 = (Inr sb, s1)"
  shows "fst (getOrCreateSandbox_calls (req\<lparr>r_sessionId := Some (sessionId sb)\<rparr>) es s1) =
       map (\<lambda>e. Inr (sb\<lparr>lastAccessed := touch_now e\<rparr>)) es \<and>
     snd (getOrCreateSandbox_calls (req\<lparr>r_sessionId := Some (sessionId sb)\<rparr>) es s1) =
       (if es = [] then s1
        else s1\<lparr>sandboxes := AList.update (sessionId sb)
                   (sb\<lparr>lastAccessed := touch_now (last es)\<rparr>) (sandboxes s1)\<rparr>) \<and>
     docker (snd (getOrCreateSandbox_calls (req\<lparr>r_sessionId := Some (sessionId sb)\<rparr>) es s1)) =
       docker s1 \<and>
     postgres (snd (getOrCreateSandbox_calls (req\<lparr>r_sessionId := Some (sessionId sb)\<rparr>) es s1)) =
       postgres s1"
proof -
  let ?req = "req\<lparr>r_sessionId := Some (sessionId sb)\<rparr>"
  from first_call_establishes [OF assms]
  have "getOrCreateSandbox_calls ?req es s1 =
     (map (\<lambda>e. Inr (sb\<lparr>lastAccessed := touch_now e\<rparr>)) es,
      if es = [] then s1
      else s1\<lparr>sandboxes := AList.update (sessionId sb)
                 (sb\<lparr>lastAccessed := touch_now (last es)\<rparr>) (sandboxes s1)\<rparr>)"
    by (intro reuse_calls) simp_all
  then show ?thesis by simp
qed

lemma first_call_example:
  "getOrCreateSandbox example_request (ok_env ''aaaaaaaa'' ''c1'' 49153 1000)
     (initial defaultConfig) =
   (Inr (example_sandbox ''sandbox_1000_aaaaaaaa'' ''c1'' 49153 1000), one_sandbox)"
  by (simp add: run_defs example_defs generateSessionId_example one_sandbox_def send_all_ok)

theorem getOrCreateSandbox_reuses_witness:
  "fst (getOrCreateSandbox_calls (example_request\<lparr>r_sessionId := Some ''sandbox_1000_aaaaaaaa''\<rparr>)
          [ok_env ''bbbbbbbb'' ''c2'' 49154 2000, ok_env ''cccccccc'' ''c3'' 49155 3000] one_sandbox) =
     [Inr ((example_sandbox ''sandbox_1000_aaaaaaaa'' ''c1'' 49153 1000)\<lparr>lastAccessed := 2000\<rparr>),
      Inr ((example_sandbox ''sandbox_1000_aaaaaaaa'' ''c1'' 49153 1000)\<lparr>lastAccessed := 3000\<rparr>)] \<and>
   docker (snd (getOrCreateSandbox_calls
          (example_request\<lparr>r_sessionId := Some ''sandbox_1000_aaaaaaaa''\<rparr>)
          [ok_env ''bbbbbbbb'' ''c2'' 49154 2000, ok_env ''cccccccc'' ''c3'' 49155 3000] one_sandbox)) =
     docker one_sandbox"
proof -
  let ?sb = "example_sandbox ''sandbox_1000_aaaaaaaa'' ''c1'' 49153 1000"
  have wf: "list_all (\<lambda>(k, sb). sessionId sb = k) (sandboxes (initial defaultConfig))"
    by (simp add: initial_def)
  have k: "sessionId ?sb = ''sandbox_1000_aaaaaaaa''" by (simp add: example_sandbox_def)
  note t = getOrCreateSandbox_reuses [OF wf first_call_example,
      of "[ok_env ''bbbbbbbb'' ''c2'' 49154 2000, ok_env ''cccccccc'' ''c3'' 49155 3000]"]
  from t [THEN conjunct1] t [THEN conjunct2, THEN conjunct2, THEN conjunct1]
  show ?thesis by (simp add: k ok_env_def)
qed

text \<open>
  The claim as stated fails for a key that the registry does not hold: the manager does
  not adopt it, and every call presenting it provisions a sandbox under a newly
  generated key. Two calls presenting \<open>my-session\<close> with the same schema and data start
  two containers.
\<close>

theorem getOrCreateSandbox_reuses_counterexample:
  "map (map_sum id containerId) (fst (getOrCreateSandbox_calls own_key_request
      [ok_env ''aaaaaaaa'' ''c1'' 49153 1000, ok_env ''bbbbbbbb'' ''c2'' 49154 2000]
      (initial defaultConfig))) = [Inr ''c1'', Inr ''c2''] \<and>
   map fst (live_containers (docker (snd (getOrCreateSandbox_calls own_key_request
      [ok_env ''aaaaaaaa'' ''c1'' 49153 1000, ok_env ''bbbbbbbb'' ''c2'' 49154 2000]
      (initial defaultConfig))))) = [''c1'', ''c2'']"
  by (simp add: run_defs example_defs own_key_request_def generateSessionId_def show_int_def
        digits.simps digit_char_def send_all_ok live_containers_def)

subsection \<open>Seeding (C9)\<close>

lemma send_all_Inr:
  "send_all port out i sts lg = (Inr u, lg') \<Longrightarrow> lg' = lg @ map (Pair port) sts"
proof (induction sts arbitrary: i lg)
  case Nil
  then show ?case by simp
next
  case (Cons st sts)
  from Cons.prems have "send_all port out (Suc i) sts (lg @ [(port, st)]) = (Inr u, lg')"
    by (simp split: sum.splits)
  from Cons.IH [OF this] show ?case by simp
qed

lemma seedPostgresDatabase_Inr:
  "seedPostgresDatabase port d x p lg = (Inr u, lg') \<Longrightarrow>
   lg' = lg @ map (Pair port) (seedStatements (schema_of p d) x)"
  by (auto simp: seedPostgresDatabase_def split: sum.splits prod.splits dest: send_all_Inr)






lemma insertSQL_example:
  "insertSQL ''users'' [''id'', ''name''] =
     ''INSERT INTO '' @ [CHR 0x22] @ ''users'' @ [CHR 0x22] @ '' ('' @
       [CHR 0x22] @ ''id'' @ [CHR 0x22] @ '', '' @ [CHR 0x22] @ ''name'' @ [CHR 0x22] @
     '') VALUES ($1, $2)''"
  by (simp add: insertSQL_def digits.simps digit_char_def upt_rec)

subsection \<open>The fingerprint (C7)\<close>

















lemma quote_hd: "quote s \<noteq> [] \<and> hd (quote s) = CHR 0x22"
  by (simp add: quote_def)











lemma computeDataHash_example:
  "computeDataHash (r_dbml example_request) (r_data example_request) =
     ''{'' @ [CHR 0x22] @ ''dbml'' @ [CHR 0x22] @ '':'' @ [CHR 0x22] @
       ''Table users { id integer name text }'' @ [CHR 0x22] @ '','' @ [CHR 0x22] @ ''data'' @
       [CHR 0x22] @ '':{'' @ [CHR 0x22] @ ''users'' @ [CHR 0x22] @ '':[{'' @ [CHR 0x22] @ ''id'' @
       [CHR 0x22] @ '':1,'' @ [CHR 0x22] @ ''name'' @ [CHR 0x22] @ '':'' @ [CHR 0x22] @ ''a'' @
       [CHR 0x22] @ ''}]}}''"
  by (simp add: computeDataHash_def seed_json_def example_request_def quote_def escape_char_def
        show_int_def digits.simps digit_char_def Abs_safe_integer_inverse)




subsection \<open>The registry invariant\<close>

lemma list_all_update:
  "list_all (\<lambda>(k, sb). P k sb) m \<Longrightarrow> P k v \<Longrightarrow> list_all (\<lambda>(k, sb). P k sb) (AList.update k v m)"
  by (induction m) auto

lemma list_all_delete:
  "list_all P m \<Longrightarrow> list_all P (AList.delete k m)"
  by (simp add: AList.delete_eq list_all_iff)

lemma registry_ok_initial: "registry_ok (initial c)"
  by (simp add: registry_ok_def initial_def)

lemma registry_ok_deleteSandbox: "registry_ok s \<Longrightarrow> registry_ok (deleteSandbox k r s)"
  by (simp add: registry_ok_def sandboxes_deleteSandbox distinct_delete list_all_delete)

lemma registry_ok_createSandbox:
  assumes "registry_ok s"
  shows "registry_ok (snd (createSandbox k d x eng h p s))"
proof (cases "fst (createSandbox k d x eng h p s)")
  case (Inl e)
  then have "sandboxes (snd (createSandbox k d x eng h p s)) = sandboxes s"
    by (auto simp: createSandbox_def Let_def split: if_splits sum.splits prod.splits)
  with assms show ?thesis by (simp add: registry_ok_def)
next
  case (Inr sb)
  then have "createSandbox k d x eng h p s = (Inr sb, snd (createSandbox k d x eng h p s))"
    by (simp add: prod_eq_iff)
  from createSandbox_Inr [OF this] obtain cid port lg where
    "sessionId sb = k"
    "sandboxes (snd (createSandbox k d x eng h p s)) = AList.update k sb (sandboxes s)"
    by (metis (no_types, lifting) SandboxInstance.select_convs(1) state.select_convs(1)
          state.surjective state.update_convs(1))
  with assms show ?thesis
    by (simp add: registry_ok_def distinct_update list_all_update)
qed

lemma registry_ok_getOrCreateSandbox:
  assumes "registry_ok s"
  shows "registry_ok (snd (getOrCreateSandbox req e s))"
proof -
  have touch: "\<And>k sb t. map_of (sandboxes s) k = Some sb \<Longrightarrow>
     registry_ok (s\<lparr>sandboxes := AList.update k (sb\<lparr>lastAccessed := t\<rparr>) (sandboxes s)\<rparr>)"
  proof -
    fix k sb t assume "map_of (sandboxes s) k = Some sb"
    then have "(k, sb) \<in> set (sandboxes s)" by (rule map_of_SomeD)
    with assms have "sessionId sb = k" by (auto simp: registry_ok_def list_all_iff)
    with assms show "registry_ok (s\<lparr>sandboxes := AList.update k (sb\<lparr>lastAccessed := t\<rparr>) (sandboxes s)\<rparr>)"
      by (simp add: registry_ok_def distinct_update list_all_update)
  qed
  show ?thesis
    using assms
    by (auto simp: getOrCreateSandbox_def Let_def replaceSandbox_def touch
          registry_ok_createSandbox registry_ok_deleteSandbox split: option.splits)
qed

lemma registry_ok_executeQuery:
  assumes "registry_ok s"
  shows "registry_ok (snd (executeQuery k query q s))"
proof (cases "map_of (sandboxes s) k")
  case None
  with assms show ?thesis by (simp add: executeQuery_absent)
next
  case (Some sb)
  then have "(k, sb) \<in> set (sandboxes s)" by (rule map_of_SomeD)
  with assms have "sessionId sb = k" by (auto simp: registry_ok_def list_all_iff)
  with assms Some show ?thesis
    by (simp add: registry_ok_def executeQuery_touch distinct_update list_all_update)
qed

lemma registry_ok_cleanupExpiredSandboxes:
  "registry_ok s \<Longrightarrow> registry_ok (cleanupExpiredSandboxes g s)"
  by (simp add: registry_ok_def cleanupExpiredSandboxes_def sandboxes_fold_deleteSandbox
        distinct_map_filter list_all_iff)

subsection \<open>The route and the executor (C10)\<close>

lemma postExecuteQuery_blank:
  assumes "b_dbml body = Some d" "d \<noteq> []" "b_data body = Some x" "b_query body = Some q"
    and "\<not> (\<exists>c\<in>set q. \<not> isWhiteSpace c)"
  shows "postExecuteQuery body xe s =
     ((400, rejected (if q = [] then ''Missing required fields: dbml and query are required''
                     else ''Query cannot be empty'')), s)"
  using assms by (auto simp: postExecuteQuery_def validateQuery_eq rejected_def Let_def)

lemma postExecuteQuery_nonblank:
  assumes "b_dbml body = Some d" "d \<noteq> []" "b_data body = Some x" "b_query body = Some q"
    and "\<exists>c\<in>set q. \<not> isWhiteSpace c"
  shows "postExecuteQuery body xe s =
     (case execute \<lparr>x_sessionId = b_sessionId body, x_dbml = d, x_data = x, x_query = q,
                    x_engine = b_engine body\<rparr> xe s of
        (response, s1) \<Rightarrow> ((if success response then 200 else 400, response), s1))"
proof -
  from assms(5) have "q \<noteq> []" by auto
  with assms show ?thesis
    by (simp add: postExecuteQuery_def validateQuery_eq Let_def)
qed

lemma execute_sends:
  assumes "getOrCreateSandbox \<lparr>r_sessionId = x_sessionId request, r_dbml = x_dbml request,
              r_data = x_data request, r_engine = x_engine request\<rparr> (sandbox_env xe) s = (Inr sb, s1)"
    and "map_of (sandboxes s1) (sessionId sb) = Some sb" "engine sb = ''postgres''"
    and "q_connect (statement_env xe) = Inr ()"
  shows "postgres (snd (execute request xe s)) = postgres s1 @ [(hostPort sb, Simple (x_query request))]"
  using assms executeQuery_sends [of s1 "sessionId sb" sb "statement_env xe" "x_query request"]
  by (auto simp: execute_def split: prod.splits sum.splits)

text \<open>
  C10. \<open>validateQuery\<close> of the container-sandbox path accepts a query exactly when it
  has a character that is not whitespace, and rejects every other query (the empty one
  and those of whitespace only) with "Query cannot be empty". Nothing else is tested:
  the kind of statement plays no part. The route answers a blank query with status 400
  and touches nothing; any other query it hands to \<open>execute\<close> as it is. There the query
  is sent, as the very text the caller gave, to the PostgreSQL server of the sandbox
  that \<open>getOrCreateSandbox\<close> returned, once the connection opens.
\<close>

theorem validateQuery_accepts_nonblank:
  "validateQuery q =
     (if \<exists>c\<in>set q. \<not> isWhiteSpace c then \<lparr>valid = True, error = None\<rparr>
      else \<lparr>valid = False, error = Some ''Query cannot be empty''\<rparr>) \<and>
   (b_dbml body = Some d \<and> d \<noteq> [] \<and> b_data body = Some x \<and> b_query body = Some q \<longrightarrow>
      postExecuteQuery body xe s =
        (if \<exists>c\<in>set q. \<not> isWhiteSpace c
         then (case execute \<lparr>x_sessionId = b_sessionId body, x_dbml = d, x_data = x,
                              x_query = q, x_engine = b_engine body\<rparr> xe s of
                 (response, s1) \<Rightarrow> ((if success response then 200 else 400, response), s1))
         else ((400, rejected (if q = []
                                then ''Missing required fields: dbml and query are required''
                                else ''Query cannot be empty'')), s))) \<and>
   (registry_ok s \<and>
    getOrCreateSandbox \<lparr>r_sessionId = x_sessionId request, r_dbml = x_dbml request,
        r_data = x_data request, r_engine = x_engine request\<rparr> (sandbox_env xe) s = (Inr sb, s1) \<and>
    engine sb = ''postgres'' \<and> q_connect (statement_env xe) = Inr () \<longrightarrow>
      postgres (snd (execute request xe s)) =
        postgres s1 @ [(hostPort sb, Simple (x_query request))])"
proof (intro conjI impI)
  show "validateQuery q =
     (if \<exists>c\<in>set q. \<not> isWhiteSpace c then \<lparr>valid = True, error = None\<rparr>
      else \<lparr>valid = False, error = Some ''Query cannot be empty''\<rparr>)"
    by (rule validateQuery_eq)
next
  assume "b_dbml body = Some d \<and> d \<noteq> [] \<and> b_data body = Some x \<and> b_query body = Some q"
  then show "postExecuteQuery body xe s =
        (if \<exists>c\<in>set q. \<not> isWhiteSpace c
         then (case execute \<lparr>x_sessionId = b_sessionId body, x_dbml = d, x_data = x,
                              x_query = q, x_engine = b_engine body\<rparr> xe s of
                 (response, s1) \<Rightarrow> ((if success response then 200 else 400, response), s1))
         else ((400, rejected (if q = []
                                then ''Missing required fields: dbml and query are required''
                                else ''Query cannot be empty'')), s))"
    using postExecuteQuery_blank [of body d x q xe s] postExecuteQuery_nonblank [of body d x q xe s]
    by (cases "\<exists>c\<in>set q. \<not> isWhiteSpace c") simp_all
next
  assume a: "registry_ok s \<and>
    getOrCreateSandbox \<lparr>r_sessionId = x_sessionId request, r_dbml = x_dbml request,
        r_data = x_data request, r_engine = x_engine request\<rparr> (sandbox_env xe) s = (Inr sb, s1) \<and>
    engine sb = ''postgres'' \<and> q_connect (statement_env xe) = Inr ()"
  then have "list_all (\<lambda>(k, sb). sessionId sb = k) (sandboxes s)"
    and "getOrCreateSandbox \<lparr>r_sessionId = x_sessionId request, r_dbml = x_dbml request,
        r_data = x_data request, r_engine = x_engine request\<rparr> (sandbox_env xe) s = (Inr sb, s1)"
    by (simp_all add: registry_ok_def)
  from first_call_establishes [OF this]
  have "map_of (sandboxes s1) (sessionId sb) = Some sb" by simp
  with a show "postgres (snd (execute request xe s)) =
        postgres s1 @ [(hostPort sb, Simple (x_query request))]"
    by (intro execute_sends) simp_all
qed

theorem validateQuery_accepts_nonblank_witness:
  "validateQuery ''DROP TABLE users'' = \<lparr>valid = True, error = None\<rparr> \<and>
   validateQuery [CHR 0x20, CHR 0x0A, CHR 0xA0] =
     \<lparr>valid = False, error = Some ''Query cannot be empty''\<rparr> \<and>
   postExecuteQuery drop_table_body ok_execute one_sandbox =
     (case execute \<lparr>x_sessionId = Some ''sandbox_1000_aaaaaaaa'', x_dbml = r_dbml example_request,
                    x_data = r_data example_request, x_query = ''DROP TABLE users'',
                    x_engine = None\<rparr> ok_execute one_sandbox of
        (response, s1) \<Rightarrow> ((if success response then 200 else 400, response), s1)) \<and>
   postgres (snd (execute \<lparr>x_sessionId = Some ''sandbox_1000_aaaaaaaa'',
                    x_dbml = r_dbml example_request, x_data = r_data example_request,
                    x_query = ''DROP TABLE users'', x_engine = None\<rparr> ok_execute one_sandbox)) =
     postgres one_sandbox @ [(49153, Simple ''DROP TABLE users'')]"
proof -
  let ?k = "''sandbox_1000_aaaaaaaa''"
  let ?sb = "example_sandbox ?k ''c1'' 49153 1000"
  let ?req = "\<lparr>x_sessionId = Some ?k, x_dbml = r_dbml example_request,
               x_data = r_data example_request, x_query = ''DROP TABLE users'', x_engine = None\<rparr>"
  let ?s1 = "one_sandbox\<lparr>sandboxes := [(?k, ?sb\<lparr>lastAccessed := 2000\<rparr>)]\<rparr>"
  have body: "b_dbml drop_table_body = Some (r_dbml example_request) \<and> r_dbml example_request \<noteq> [] \<and>
      b_data drop_table_body = Some (r_data example_request) \<and>
      b_query drop_table_body = Some ''DROP TABLE users''"
    by (simp add: drop_table_body_def example_request_def)
  have nonblank: "\<exists>c\<in>set ''DROP TABLE users''. \<not> isWhiteSpace c"
    by (simp add: isWhiteSpace_def)
  have blank: "\<not> (\<exists>c\<in>set [CHR 0x20, CHR 0x0A, CHR 0xA0]. \<not> isWhiteSpace c)"
    by (simp add: isWhiteSpace_def)
  have ok: "registry_ok one_sandbox"
    by (simp add: registry_ok_def one_sandbox_def example_sandbox_def)
  have reuse: "getOrCreateSandbox \<lparr>r_sessionId = x_sessionId ?req, r_dbml = x_dbml ?req,
        r_data = x_data ?req, r_engine = x_engine ?req\<rparr> (sandbox_env ok_execute) one_sandbox =
      (Inr (?sb\<lparr>lastAccessed := 2000\<rparr>), ?s1)"
    by (simp add: getOrCreateSandbox_def Let_def one_sandbox_def example_sandbox_def
          ok_execute_def ok_env_def)
  have rest: "engine (?sb\<lparr>lastAccessed := 2000\<rparr>) = ''postgres'' \<and>
      q_connect (statement_env ok_execute) = Inr ()"
    by (simp add: example_sandbox_def ok_execute_def ok_query_def)
  note t1 = validateQuery_accepts_nonblank [where q = "''DROP TABLE users''"
      and body = drop_table_body and xe = ok_execute and s = one_sandbox and request = ?req]
  note t2 = validateQuery_accepts_nonblank [where q = "[CHR 0x20, CHR 0x0A, CHR 0xA0]"]
  from t1 [THEN conjunct1] nonblank
  have a: "validateQuery ''DROP TABLE users'' = \<lparr>valid = True, error = None\<rparr>" by simp
  from t2 [THEN conjunct1] blank
  have b: "validateQuery [CHR 0x20, CHR 0x0A, CHR 0xA0] =
     \<lparr>valid = False, error = Some ''Query cannot be empty''\<rparr>" by simp
  from t1 [THEN conjunct2, THEN conjunct1, THEN mp, OF body] nonblank
  have c: "postExecuteQuery drop_table_body ok_execute one_sandbox =
     (case execute ?req ok_execute one_sandbox of
        (response, s1) \<Rightarrow> ((if success response then 200 else 400, response), s1))"
    by (simp add: drop_table_body_def)
  from t1 [THEN conjunct2, THEN conjunct2, THEN mp] ok reuse rest
  have d: "postgres (snd (execute ?req ok_execute one_sandbox)) =
     postgres ?s1 @ [(hostPort (?sb\<lparr>lastAccessed := 2000\<rparr>), Simple (x_query ?req))]"
    by blast
  from a b c d show ?thesis by (simp add: example_sandbox_def)
qed

end
